theory Spec2Isabelle
  imports Complex_Main
begin

section \<open>The target-size media compression engine of mtool\<close>

text \<open>
  A shallow embedding of \<^verbatim>\<open>src/mtool/image/compress.py\<close> and
  \<^verbatim>\<open>src/mtool/video/compress.py\<close>. The file system is a finite map from paths to
  files, the terminal output and the calls into the external collaborators are kept in a
  chronological trace, Python exceptions are values, and the external encoders (Pillow's
  \<^verbatim>\<open>Image.save\<close>, the ffmpeg and ffprobe processes) are parameters of the model, as
  are the rounding and the square root of Python's floats.
\<close>

subsection \<open>Python strings and paths\<close>

type_synonym path = string

definition lower_char :: "char \<Rightarrow> char" where
  "lower_char c =
     (if 65 \<le> (of_char c :: nat) \<and> (of_char c :: nat) \<le> 90
      then char_of ((of_char c :: nat) + 32) else c)"

definition lower :: "string \<Rightarrow> string" where
  "lower s = map lower_char s"

definition endswith :: "string \<Rightarrow> string \<Rightarrow> bool" where
  "endswith s suf = (take (length suf) (rev s) = rev suf)"

text \<open>\<^verbatim>\<open>s.replace(old, new)\<close>: every non-overlapping occurrence, left to right; an
  empty \<^verbatim>\<open>old\<close> matches before every character and at the end.\<close>

function py_replace :: "string \<Rightarrow> string \<Rightarrow> string \<Rightarrow> string" where
  "py_replace old new [] = (if old = [] then new else [])"
| "py_replace old new (c # cs) =
     (if old = [] then new @ c # py_replace old new cs
      else if take (length old) (c # cs) = old
           then new @ py_replace old new (drop (length old) (c # cs))
      else c # py_replace old new cs)"
  by pat_completeness auto
termination
  by (relation "measure (\<lambda>(old, new, s). length s)") auto

text \<open>\<^verbatim>\<open>os.path.splitext(p)[1]\<close>: the extension starts at the last dot of the last path
  component, unless only dots precede it there.\<close>

definition splitext_ext :: "path \<Rightarrow> string" where
  "splitext_ext p =
     (let base = rev (takeWhile (\<lambda>c. c \<noteq> CHR ''/'') (rev p));
          ext = rev (takeWhile (\<lambda>c. c \<noteq> CHR ''.'') (rev base));
          stem = rev (dropWhile (\<lambda>c. c \<noteq> CHR ''.'') (rev base))
      in if stem = [] then []
         else if filter (\<lambda>c. c \<noteq> CHR ''.'') stem = [] then []
         else CHR ''.'' # ext)"

subsection \<open>Python numbers\<close>

text \<open>A float is kept as the rational it denotes. Every arithmetic operation of the
  program on floats yields the float nearest to the exact result: \<open>rnd fp x\<close> is that
  float for the exact result \<open>x\<close>, and \<open>fsqrt fp\<close> is \<^verbatim>\<open>math.sqrt\<close>. Nothing is
  assumed of either, so that what is proved holds whatever the rounding. File sizes, bit
  rates and pixel counts are far below \<open>2 ^ 53\<close> and convert to floats unchanged.\<close>

record floats =
  rnd :: "rat \<Rightarrow> rat"
  fsqrt :: "rat \<Rightarrow> rat"

definition fmul :: "floats \<Rightarrow> rat \<Rightarrow> rat \<Rightarrow> rat" where
  "fmul fp a b = rnd fp (a * b)"

definition fsub :: "floats \<Rightarrow> rat \<Rightarrow> rat \<Rightarrow> rat" where
  "fsub fp a b = rnd fp (a - b)"

definition fdiv :: "floats \<Rightarrow> rat \<Rightarrow> rat \<Rightarrow> rat" where
  "fdiv fp a b = rnd fp (a / b)"

text \<open>\<^verbatim>\<open>int(x)\<close> of a float truncates towards zero.\<close>

definition py_int :: "rat \<Rightarrow> int" where
  "py_int x = (if 0 \<le> x then \<lfloor>x\<rfloor> else \<lceil>x\<rceil>)"


subsection \<open>Files, exceptions, trace\<close>

datatype format = JPEG | PNG | WebP | Video | Other

datatype blob = Blob (fmt: format) (nbytes: nat)

datatype exn =
    FileNotFoundError
  | UnboundLocalError
  | ZeroDivisionError
  | ValueError
  | UnidentifiedImageError
  | SaveError

text \<open>What one call of an encoder did: it wrote a candidate of that many bytes, or it
  failed, leaving the output path alone (\<open>None\<close>) or holding a partial file.\<close>

datatype enc_result = Encoded nat | EncodeFailed "nat option"

datatype err_msg =
    CouldNotReadFileSize
  | CouldNotReadVideoInfo
  | NoVideoStream
  | FFmpegFailed
  | Caught exn

datatype message =
    OriginalSize nat
  | TargetSize rat
  | IterationQuality int int nat
  | IterationBitrate int int
  | Result nat
  | Warning
  | FinalSize nat
  | ActualReduction rat
  | AlreadySmaller
  | Error err_msg

datatype event =
    Echo message
  | Save path format int enc_result
  | Ffmpeg path path int string enc_result
  | Remove path
  | Rename path path

record world =
  fs :: "path \<rightharpoonup> blob"
  trace :: "event list"

definition echo :: "message \<Rightarrow> world \<Rightarrow> world" where
  "echo m w = w\<lparr>trace := trace w @ [Echo m]\<rparr>"

definition getsize :: "world \<Rightarrow> path \<Rightarrow> exn + nat" where
  "getsize w p = (case fs w p of None \<Rightarrow> Inl FileNotFoundError | Some b \<Rightarrow> Inr (nbytes b))"

definition path_exists :: "world \<Rightarrow> path \<Rightarrow> bool" where
  "path_exists w p = (fs w p \<noteq> None)"

definition os_remove :: "path \<Rightarrow> world \<Rightarrow> exn + world" where
  "os_remove p w =
     (case fs w p of
        None \<Rightarrow> Inl FileNotFoundError
      | Some b \<Rightarrow> Inr (w\<lparr>fs := (fs w)(p := None), trace := trace w @ [Remove p]\<rparr>))"

definition os_rename :: "path \<Rightarrow> path \<Rightarrow> world \<Rightarrow> exn + world" where
  "os_rename src dst w =
     (case fs w src of
        None \<Rightarrow> Inl FileNotFoundError
      | Some b \<Rightarrow>
          Inr (w\<lparr>fs := ((fs w)(src := None))(dst \<mapsto> b), trace := trace w @ [Rename src dst]\<rparr>))"

text \<open>\<^verbatim>\<open>output or file\<close>: the destination defaults to the source; an empty
  \<^verbatim>\<open>--output\<close> string is falsy too.\<close>

definition out_path :: "path option \<Rightarrow> path \<Rightarrow> path" where
  "out_path output file =
     (case output of None \<Rightarrow> file | Some p \<Rightarrow> if p = [] then file else p)"

text \<open>\<^verbatim>\<open>((original_size - final_size) / original_size) * 100\<close>.\<close>

definition actual_reduction :: "floats \<Rightarrow> nat \<Rightarrow> nat \<Rightarrow> exn + rat" where
  "actual_reduction fp original_size final_size =
     (if original_size = 0 then Inl ZeroDivisionError
      else Inr (fmul fp (fdiv fp (of_int (int original_size - int final_size))
                           (of_nat original_size)) 100))"

subsection \<open>Image compression (src/mtool/image/compress.py)\<close>

record image =
  width :: nat
  height :: nat
  rgb :: bool

text \<open>The codec library: \<open>pil_save p im f q\<close> is what \<^verbatim>\<open>im.save(p, f, quality=q)\<close>
  does.\<close>

type_synonym pil = "path \<Rightarrow> image \<Rightarrow> format \<Rightarrow> int \<Rightarrow> enc_result"

definition img_save :: "pil \<Rightarrow> path \<Rightarrow> image \<Rightarrow> format \<Rightarrow> int \<Rightarrow> world \<Rightarrow> exn option \<times> world" where
  "img_save enc p im f q w =
     (case enc p im f q of
        Encoded n \<Rightarrow>
          (None, w\<lparr>fs := (fs w)(p \<mapsto> Blob f n), trace := trace w @ [Save p f q (Encoded n)]\<rparr>)
      | EncodeFailed left \<Rightarrow>
          (Some SaveError,
           w\<lparr>fs := (case left of None \<Rightarrow> fs w | Some n \<Rightarrow> (fs w)(p \<mapsto> Blob f n)),
             trace := trace w @ [Save p f q (EncodeFailed left)]\<rparr>))"

record img_state =
  img :: image
  quality :: int
  current_size :: nat
  iterations :: int
  temp_path :: "path option"

datatype 'a step = Raise exn | Break 'a | Continue 'a

text \<open>The PNG branch below the quality floor (lines 53-58 and 137-142): the image is
  resized, the quality is reset, and nothing is saved. \<^verbatim>\<open>math.sqrt\<close> refuses a negative
  argument and \<^verbatim>\<open>resize\<close> a size that is not positive.\<close>

definition png_downscale :: "floats \<Rightarrow> rat \<Rightarrow> img_state \<Rightarrow> exn + img_state" where
  "png_downscale fp target_size s =
     (if current_size s = 0 then Inl ZeroDivisionError
      else
        let ratio = fdiv fp target_size (of_nat (current_size s))
        in if ratio < 0 then Inl ValueError
           else
             let scale_factor = fsqrt fp ratio;
                 new_width = py_int (fmul fp (of_nat (width (img s))) scale_factor);
                 new_height = py_int (fmul fp (of_nat (height (img s))) scale_factor)
             in if new_width \<le> 0 \<or> new_height \<le> 0 then Inl ValueError
                else Inr (s\<lparr>img := (img s)\<lparr>width := nat new_width, height := nat new_height\<rparr>,
                            quality := 95\<rparr>))"

text \<open>The save dispatch on the file name (lines 46-70 and 131-152). \<open>png_floor\<close> is 50 in
  by-percent and 30 in to-size.\<close>

definition produce_candidate ::
  "floats \<Rightarrow> pil \<Rightarrow> path \<Rightarrow> rat \<Rightarrow> int \<Rightarrow> img_state \<Rightarrow> world
     \<Rightarrow> (exn + img_state) \<times> world" where
  "produce_candidate fp enc file target_size png_floor s w =
     (let temp = file @ ''.temp'' in
      if endswith (lower file) ''.jpg'' \<or> endswith (lower file) ''.jpeg'' then
        (case img_save enc temp (img s) JPEG (quality s) w of
           (Some e, w') \<Rightarrow> (Inl e, w')
         | (None, w') \<Rightarrow> (Inr (s\<lparr>temp_path := Some temp\<rparr>), w'))
      else if endswith (lower file) ''.png'' then
        (if quality s < png_floor then
           (case png_downscale fp target_size s of
              Inl e \<Rightarrow> (Inl e, w)
            | Inr s' \<Rightarrow> (Inr (s'\<lparr>temp_path := Some temp\<rparr>), w))
         else
           let temp' = py_replace ''.png'' ''.jpg'' temp;
               im = (img s)\<lparr>rgb := True\<rparr>
           in case img_save enc temp' im JPEG (quality s) w of
                (Some e, w') \<Rightarrow> (Inl e, w')
              | (None, w') \<Rightarrow> (Inr (s\<lparr>img := im, temp_path := Some temp'\<rparr>), w'))
      else if endswith (lower file) ''.webp'' then
        (case img_save enc temp (img s) WebP (quality s) w of
           (Some e, w') \<Rightarrow> (Inl e, w')
         | (None, w') \<Rightarrow> (Inr (s\<lparr>temp_path := Some temp\<rparr>), w'))
      else
        let temp' = py_replace (splitext_ext file) ''.jpg'' temp;
            im = (img s)\<lparr>rgb := True\<rparr>
        in case img_save enc temp' im JPEG (quality s) w of
             (Some e, w') \<Rightarrow> (Inl e, w')
           | (None, w') \<Rightarrow> (Inr (s\<lparr>img := im, temp_path := Some temp'\<rparr>), w'))"

text \<open>Measuring and judging the candidate (lines 72-86 and 154-164). \<open>qstep\<close> is 10 in
  by-percent and 8 in to-size.\<close>

definition judge_candidate ::
  "path \<Rightarrow> path option \<Rightarrow> rat \<Rightarrow> int \<Rightarrow> path \<Rightarrow> img_state \<Rightarrow> world \<Rightarrow> img_state step \<times> world" where
  "judge_candidate file output target_size qstep temp s w =
     (case getsize w temp of
        Inl e \<Rightarrow> (Raise e, w)
      | Inr n \<Rightarrow>
          let s1 = s\<lparr>current_size := n\<rparr>;
              w1 = echo (IterationQuality (iterations s + 1) (quality s) n) w
          in if of_nat n \<le> target_size then
               (case os_rename temp (out_path output file) w1 of
                  Inl e \<Rightarrow> (Raise e, w1)
                | Inr w2 \<Rightarrow> (Break s1, w2))
             else
               (case os_remove temp w1 of
                  Inl e \<Rightarrow> (Raise e, w1)
                | Inr w2 \<Rightarrow>
                    (Continue (s1\<lparr>quality := max 5 (quality s - qstep),
                                   iterations := iterations s + 1\<rparr>), w2)))"

text \<open>One pass through the body of the \<^verbatim>\<open>while\<close> loop.\<close>

definition img_iteration ::
  "floats \<Rightarrow> pil \<Rightarrow> path \<Rightarrow> path option \<Rightarrow> rat \<Rightarrow> int \<Rightarrow> int \<Rightarrow> img_state \<Rightarrow> world
     \<Rightarrow> img_state step \<times> world" where
  "img_iteration fp enc file output target_size qstep png_floor s w =
     (case produce_candidate fp enc file target_size png_floor s w of
        (Inl e, w') \<Rightarrow> (Raise e, w')
      | (Inr s', w') \<Rightarrow>
          (case temp_path s' of
             None \<Rightarrow> (Raise UnboundLocalError, w')
           | Some temp \<Rightarrow> judge_candidate file output target_size qstep temp s' w'))"

lemma judge_candidate_iterations:
  "judge_candidate file output target_size qstep temp s w = (Continue s', w')
     \<Longrightarrow> iterations s' = iterations s + 1"
  by (auto simp: judge_candidate_def Let_def split: sum.splits if_splits)

lemma produce_candidate_iterations:
  "produce_candidate fp enc file target_size png_floor s w = (Inr s', w')
     \<Longrightarrow> iterations s' = iterations s"
  by (auto simp: produce_candidate_def png_downscale_def Let_def
           split: sum.splits if_splits prod.splits option.splits)

lemma img_iteration_iterations:
  assumes "img_iteration fp enc file output target_size qstep png_floor s w = (Continue s', w')"
  shows "iterations s' = iterations s + 1"
proof -
  from assms obtain s1 w1 temp where
    p: "produce_candidate fp enc file target_size png_floor s w = (Inr s1, w1)" and
    j: "judge_candidate file output target_size qstep temp s1 w1 = (Continue s', w')"
    by (auto simp: img_iteration_def split: sum.splits prod.splits option.splits)
  from judge_candidate_iterations [OF j] produce_candidate_iterations [OF p]
  show ?thesis by simp
qed

text \<open>\<^verbatim>\<open>while current_size > target_size and iterations < max_iterations\<close>.\<close>

function img_loop ::
  "floats \<Rightarrow> pil \<Rightarrow> path \<Rightarrow> path option \<Rightarrow> rat \<Rightarrow> int \<Rightarrow> int \<Rightarrow> int \<Rightarrow> img_state \<Rightarrow> world
     \<Rightarrow> (exn + img_state) \<times> world" where
  "img_loop fp enc file output target_size max_iterations qstep png_floor s w =
     (if of_nat (current_size s) > target_size \<and> iterations s < max_iterations then
        (case img_iteration fp enc file output target_size qstep png_floor s w of
           (Raise e, w') \<Rightarrow> (Inl e, w')
         | (Break s', w') \<Rightarrow> (Inr s', w')
         | (Continue s', w') \<Rightarrow>
             img_loop fp enc file output target_size max_iterations qstep png_floor s' w')
      else (Inr s, w))"
  by pat_completeness auto
termination
  by (relation "measure (\<lambda>(fp, enc, file, output, target_size, max_iterations, qstep, png_floor,
                   s, w). nat (max_iterations - iterations s))")
     (auto dest!: img_iteration_iterations [OF sym])

text \<open>After the loop (lines 88-93 and 166-170): the warning and the attempted commit of the
  last candidate.\<close>

definition img_commit_last ::
  "path \<Rightarrow> path option \<Rightarrow> rat \<Rightarrow> img_state \<Rightarrow> world \<Rightarrow> exn option \<times> world" where
  "img_commit_last file output target_size s w =
     (if of_nat (current_size s) > target_size then
        let w1 = echo Warning w
        in case temp_path s of
             None \<Rightarrow> (Some UnboundLocalError, w1)
           | Some temp \<Rightarrow>
               if path_exists w1 temp then
                 (case os_rename temp (out_path output file) w1 of
                    Inl e \<Rightarrow> (Some e, w1)
                  | Inr w2 \<Rightarrow> (None, w2))
               else (None, w1)
      else (None, w))"

definition initial_img_state :: "image \<Rightarrow> nat \<Rightarrow> img_state" where
  "initial_img_state im original_size =
     \<lparr>img = im, quality = 95, current_size = original_size, iterations = 0, temp_path = None\<rparr>"

text \<open>The body of the \<^verbatim>\<open>try\<close> block of by-percent. \<open>opened\<close> is what
  \<^verbatim>\<open>Image.open(file)\<close> yields, \<open>None\<close> when it raises.\<close>

definition image_by_percent_body ::
  "floats \<Rightarrow> pil \<Rightarrow> image option \<Rightarrow> path \<Rightarrow> int \<Rightarrow> path option \<Rightarrow> int \<Rightarrow> world
     \<Rightarrow> exn option \<times> world" where
  "image_by_percent_body fp enc opened file reduction output max_iterations w =
     (case getsize w file of
        Inl e \<Rightarrow> (Some e, w)
      | Inr original_size \<Rightarrow>
          let target_size =
                fmul fp (of_nat original_size) (fsub fp 1 (fdiv fp (of_int reduction) 100));
              w1 = echo (TargetSize target_size) (echo (OriginalSize original_size) w)
          in case opened of
               None \<Rightarrow> (Some UnidentifiedImageError, w1)
             | Some im \<Rightarrow>
                 (case img_loop fp enc file output target_size max_iterations 10 50
                         (initial_img_state im original_size) w1 of
                    (Inl e, w2) \<Rightarrow> (Some e, w2)
                  | (Inr s, w2) \<Rightarrow>
                      (case img_commit_last file output target_size s w2 of
                         (Some e, w3) \<Rightarrow> (Some e, w3)
                       | (None, w3) \<Rightarrow>
                           (case getsize w3 (out_path output file) of
                              Inl e \<Rightarrow> (Some e, w3)
                            | Inr final_size \<Rightarrow>
                                (case actual_reduction fp original_size final_size of
                                   Inl e \<Rightarrow> (Some e, w3)
                                 | Inr r \<Rightarrow>
                                     (None,
                                      echo (ActualReduction r)
                                        (echo (FinalSize final_size) w3)))))))"

text \<open>The command: \<^verbatim>\<open>except Exception\<close> reports whatever the body raised and returns.
  The first component is the exception that leaves the callback: never any.\<close>

definition image_compress_by_percent ::
  "floats \<Rightarrow> pil \<Rightarrow> image option \<Rightarrow> path \<Rightarrow> int \<Rightarrow> path option \<Rightarrow> int \<Rightarrow> world
     \<Rightarrow> exn option \<times> world" where
  "image_compress_by_percent fp enc opened file reduction output max_iterations w =
     (case image_by_percent_body fp enc opened file reduction output max_iterations w of
        (Some e, w') \<Rightarrow> (None, echo (Error (Caught e)) w')
      | (None, w') \<Rightarrow> (None, w'))"

definition image_to_size_body ::
  "floats \<Rightarrow> pil \<Rightarrow> image option \<Rightarrow> path \<Rightarrow> int \<Rightarrow> path option \<Rightarrow> int \<Rightarrow> world
     \<Rightarrow> exn option \<times> world" where
  "image_to_size_body fp enc opened file target_size_kb output max_iterations w =
     (case getsize w file of
        Inl e \<Rightarrow> (Some e, w)
      | Inr original_size \<Rightarrow>
          let target_size = of_int (target_size_kb * 1024)
          in if of_nat original_size \<le> target_size then (None, echo AlreadySmaller w)
             else
               let w1 = echo (TargetSize target_size) (echo (OriginalSize original_size) w)
               in case opened of
                    None \<Rightarrow> (Some UnidentifiedImageError, w1)
                  | Some im \<Rightarrow>
                      (case img_loop fp enc file output target_size max_iterations 8 30
                              (initial_img_state im original_size) w1 of
                         (Inl e, w2) \<Rightarrow> (Some e, w2)
                       | (Inr s, w2) \<Rightarrow>
                           (case img_commit_last file output target_size s w2 of
                              (Some e, w3) \<Rightarrow> (Some e, w3)
                            | (None, w3) \<Rightarrow>
                                (case getsize w3 (out_path output file) of
                                   Inl e \<Rightarrow> (Some e, w3)
                                 | Inr final_size \<Rightarrow> (None, echo (FinalSize final_size) w3)))))"

definition image_compress_to_size ::
  "floats \<Rightarrow> pil \<Rightarrow> image option \<Rightarrow> path \<Rightarrow> int \<Rightarrow> path option \<Rightarrow> int \<Rightarrow> world
     \<Rightarrow> exn option \<times> world" where
  "image_compress_to_size fp enc opened file target_size_kb output max_iterations w =
     (case image_to_size_body fp enc opened file target_size_kb output max_iterations w of
        (Some e, w') \<Rightarrow> (None, echo (Error (Caught e)) w')
      | (None, w') \<Rightarrow> (None, w'))"

subsection \<open>Video compression (src/mtool/video/compress.py)\<close>

text \<open>A key of the ffprobe JSON: absent, present but not a number, or a number.\<close>

datatype 'a field = Absent | Malformed | Present 'a

record video_info =
  streams :: "string list"
  bit_rate :: "int field"
  duration :: "rat field"

text \<open>\<open>get_video_info\<close> runs ffprobe: \<open>None\<close> when the tool is missing, exits non-zero
  or prints nothing usable; \<open>streams\<close> lists the \<^verbatim>\<open>codec_type\<close> of each stream, the
  other two fields are those of \<^verbatim>\<open>format\<close>.\<close>

type_synonym ffprobe = "path \<Rightarrow> video_info option"

definition get_video_info :: "ffprobe \<Rightarrow> path \<Rightarrow> video_info option" where
  "get_video_info probe file_path = probe file_path"

definition get_video_size :: "world \<Rightarrow> path \<Rightarrow> nat" where
  "get_video_size w file_path = (case getsize w file_path of Inl e \<Rightarrow> 0 | Inr n \<Rightarrow> n)"

text \<open>The ffmpeg process: input, output, \<^verbatim>\<open>-b:v\<close> if given, preset. The event
  \<open>Ffmpeg\<close> of the trace records a call of \<open>compress_video_ffmpeg\<close> with its arguments
  and what the process did.\<close>

type_synonym ffmpeg = "path \<Rightarrow> path \<Rightarrow> int option \<Rightarrow> string \<Rightarrow> enc_result"

definition compress_video_ffmpeg ::
  "ffmpeg \<Rightarrow> path \<Rightarrow> path \<Rightarrow> int \<Rightarrow> string \<Rightarrow> world \<Rightarrow> bool \<times> world" where
  "compress_video_ffmpeg run input_file output_file target_bitrate preset w =
     (let b = (if target_bitrate \<noteq> 0 then Some target_bitrate else None)
      in case run input_file output_file b preset of
           Encoded n \<Rightarrow>
             (True, w\<lparr>fs := (fs w)(output_file \<mapsto> Blob Video n),
                      trace := trace w @
                        [Ffmpeg input_file output_file target_bitrate preset (Encoded n)]\<rparr>)
         | EncodeFailed left \<Rightarrow>
             (False,
              w\<lparr>fs := (case left of None \<Rightarrow> fs w | Some n \<Rightarrow> (fs w)(output_file \<mapsto> Blob Video n)),
                trace := trace w @
                  [Ffmpeg input_file output_file target_bitrate preset (EncodeFailed left)]\<rparr>))"

record vid_state =
  current_bitrate :: int
  iterations_v :: int
  temp_output :: "path option"

text \<open>Lines 99-104 and 198-201.\<close>

definition original_bitrate_of :: "floats \<Rightarrow> nat \<Rightarrow> video_info \<Rightarrow> exn + int" where
  "original_bitrate_of fp original_size info =
     (case bit_rate info of
        Malformed \<Rightarrow> Inl ValueError
      | Present b \<Rightarrow>
          if b \<noteq> 0 then Inr b
          else (case duration info of
                  Malformed \<Rightarrow> Inl ValueError
                | Present d \<Rightarrow>
                    if d = 0 then Inl ZeroDivisionError
                    else Inr (py_int (fdiv fp (of_nat (original_size * 8)) d))
                | Absent \<Rightarrow> Inr (py_int (fdiv fp (of_nat (original_size * 8)) 1)))
      | Absent \<Rightarrow>
          (case duration info of
             Malformed \<Rightarrow> Inl ValueError
           | Present d \<Rightarrow>
               if d = 0 then Inl ZeroDivisionError
               else Inr (py_int (fdiv fp (of_nat (original_size * 8)) d))
           | Absent \<Rightarrow> Inr (py_int (fdiv fp (of_nat (original_size * 8)) 1))))"

text \<open>One pass through the body of the \<^verbatim>\<open>while\<close> loop (lines 111-137 and 208-230).
  \<open>decay\<close> is the float 0.8 in by-percent and 0.75 in to-size.\<close>

definition vid_iteration ::
  "floats \<Rightarrow> ffmpeg \<Rightarrow> path \<Rightarrow> path option \<Rightarrow> string \<Rightarrow> rat \<Rightarrow> nat \<Rightarrow> rat \<Rightarrow> vid_state
     \<Rightarrow> world \<Rightarrow> vid_state step \<times> world" where
  "vid_iteration fp run file output preset target_size original_size decay s w =
     (let temp = file @ ''.temp'' @ splitext_ext file;
          s1 = s\<lparr>temp_output := Some temp\<rparr>
      in if original_size = 0 then (Raise ZeroDivisionError, w)
         else
           let target_bitrate =
                 py_int (fmul fp (of_int (current_bitrate s))
                           (fdiv fp target_size (of_nat original_size)));
               w1 = echo (IterationBitrate (iterations_v s + 1) target_bitrate) w
           in case compress_video_ffmpeg run file temp target_bitrate preset w1 of
                (True, w2) \<Rightarrow>
                  let current_size = get_video_size w2 temp;
                      w3 = echo (Result current_size) w2
                  in if of_nat current_size \<le> target_size then
                       (case os_rename temp (out_path output file) w3 of
                          Inl e \<Rightarrow> (Raise e, w3)
                        | Inr w4 \<Rightarrow> (Break s1, w4))
                     else
                       (case os_remove temp w3 of
                          Inl e \<Rightarrow> (Raise e, w3)
                        | Inr w4 \<Rightarrow>
                            (Continue (s1\<lparr>current_bitrate :=
                                             py_int (fmul fp (of_int (current_bitrate s)) decay),
                                           iterations_v := iterations_v s + 1\<rparr>), w4))
              | (False, w2) \<Rightarrow> (Break s1, echo (Error FFmpegFailed) w2))"

lemma vid_iteration_iterations:
  "vid_iteration fp run file output preset target_size original_size decay s w = (Continue s', w')
     \<Longrightarrow> iterations_v s' = iterations_v s + 1"
  by (auto simp: vid_iteration_def Let_def split: sum.splits if_splits prod.splits bool.splits)

text \<open>\<^verbatim>\<open>while iterations < max_iterations\<close>.\<close>

function vid_loop ::
  "floats \<Rightarrow> ffmpeg \<Rightarrow> path \<Rightarrow> path option \<Rightarrow> string \<Rightarrow> rat \<Rightarrow> nat \<Rightarrow> rat \<Rightarrow> int \<Rightarrow> vid_state
     \<Rightarrow> world \<Rightarrow> (exn + vid_state) \<times> world" where
  "vid_loop fp run file output preset target_size original_size decay max_iterations s w =
     (if iterations_v s < max_iterations then
        (case vid_iteration fp run file output preset target_size original_size decay s w of
           (Raise e, w') \<Rightarrow> (Inl e, w')
         | (Break s', w') \<Rightarrow> (Inr s', w')
         | (Continue s', w') \<Rightarrow>
             vid_loop fp run file output preset target_size original_size decay max_iterations
               s' w')
      else (Inr s, w))"
  by pat_completeness auto
termination
  by (relation "measure (\<lambda>(fp, run, file, output, preset, target_size, original_size, decay,
                   max_iterations, s, w). nat (max_iterations - iterations_v s))")
     (auto dest!: vid_iteration_iterations [OF sym])

text \<open>After the loop (lines 139-143 and 232-236).\<close>

definition vid_commit_last ::
  "path \<Rightarrow> path option \<Rightarrow> int \<Rightarrow> vid_state \<Rightarrow> world \<Rightarrow> exn option \<times> world" where
  "vid_commit_last file output max_iterations s w =
     (if iterations_v s \<ge> max_iterations then
        let w1 = echo Warning w
        in case temp_output s of
             None \<Rightarrow> (Some UnboundLocalError, w1)
           | Some temp \<Rightarrow>
               if path_exists w1 temp then
                 (case os_rename temp (out_path output file) w1 of
                    Inl e \<Rightarrow> (Some e, w1)
                  | Inr w2 \<Rightarrow> (None, w2))
               else (None, w1)
      else (None, w))"

definition initial_vid_state :: "int \<Rightarrow> vid_state" where
  "initial_vid_state original_bitrate =
     \<lparr>current_bitrate = original_bitrate, iterations_v = 0, temp_output = None\<rparr>"

text \<open>Lines 82-148 and 180-239, shared by the two commands: probe, loop, commit, final
  report. \<open>report_reduction\<close> is true for by-percent, which also prints the reduction.\<close>

definition video_engine ::
  "floats \<Rightarrow> ffmpeg \<Rightarrow> ffprobe \<Rightarrow> path \<Rightarrow> path option \<Rightarrow> string \<Rightarrow> int \<Rightarrow> nat \<Rightarrow> rat \<Rightarrow> rat
     \<Rightarrow> bool \<Rightarrow> world \<Rightarrow> exn option \<times> world" where
  "video_engine fp run probe file output preset max_iterations original_size target_size decay
       report_reduction w =
     (case get_video_info probe file of
        None \<Rightarrow> (None, echo (Error CouldNotReadVideoInfo) w)
      | Some info \<Rightarrow>
          if ''video'' \<notin> set (streams info) then (None, echo (Error NoVideoStream) w)
          else
            (case original_bitrate_of fp original_size info of
               Inl e \<Rightarrow> (Some e, w)
             | Inr original_bitrate \<Rightarrow>
                 (case vid_loop fp run file output preset target_size original_size decay
                         max_iterations (initial_vid_state original_bitrate) w of
                    (Inl e, w1) \<Rightarrow> (Some e, w1)
                  | (Inr s, w1) \<Rightarrow>
                      (case vid_commit_last file output max_iterations s w1 of
                         (Some e, w2) \<Rightarrow> (Some e, w2)
                       | (None, w2) \<Rightarrow>
                           let final_size = get_video_size w2 (out_path output file)
                           in if report_reduction then
                                (case actual_reduction fp original_size final_size of
                                   Inl e \<Rightarrow> (Some e, w2)
                                 | Inr r \<Rightarrow>
                                     (None,
                                      echo (ActualReduction r)
                                        (echo (FinalSize final_size) w2)))
                              else (None, echo (FinalSize final_size) w2)))))"

definition video_by_percent_body ::
  "floats \<Rightarrow> ffmpeg \<Rightarrow> ffprobe \<Rightarrow> path \<Rightarrow> int \<Rightarrow> path option \<Rightarrow> string \<Rightarrow> int \<Rightarrow> world
     \<Rightarrow> exn option \<times> world" where
  "video_by_percent_body fp run probe file reduction output preset max_iterations w =
     (let original_size = get_video_size w file
      in if original_size = 0 then (None, echo (Error CouldNotReadFileSize) w)
         else
           let target_size =
                 fmul fp (of_nat original_size) (fsub fp 1 (fdiv fp (of_int reduction) 100));
               w1 = echo (TargetSize target_size) (echo (OriginalSize original_size) w)
           in video_engine fp run probe file output preset max_iterations original_size
                target_size (rnd fp (8 / 10)) True w1)"

definition video_compress_by_percent ::
  "floats \<Rightarrow> ffmpeg \<Rightarrow> ffprobe \<Rightarrow> path \<Rightarrow> int \<Rightarrow> path option \<Rightarrow> string \<Rightarrow> int \<Rightarrow> world
     \<Rightarrow> exn option \<times> world" where
  "video_compress_by_percent fp run probe file reduction output preset max_iterations w =
     (case video_by_percent_body fp run probe file reduction output preset max_iterations w of
        (Some e, w') \<Rightarrow> (None, echo (Error (Caught e)) w')
      | (None, w') \<Rightarrow> (None, w'))"

definition video_to_size_body ::
  "floats \<Rightarrow> ffmpeg \<Rightarrow> ffprobe \<Rightarrow> path \<Rightarrow> int \<Rightarrow> path option \<Rightarrow> string \<Rightarrow> int \<Rightarrow> world
     \<Rightarrow> exn option \<times> world" where
  "video_to_size_body fp run probe file target_size_mb output preset max_iterations w =
     (let original_size = get_video_size w file
      in if original_size = 0 then (None, echo (Error CouldNotReadFileSize) w)
         else
           let target_size = of_int (target_size_mb * 1024 * 1024)
           in if of_nat original_size \<le> target_size then (None, echo AlreadySmaller w)
              else
                let w1 = echo (TargetSize target_size) (echo (OriginalSize original_size) w)
                in video_engine fp run probe file output preset max_iterations original_size
                     target_size (rnd fp (75 / 100)) False w1)"

definition video_compress_to_size ::
  "floats \<Rightarrow> ffmpeg \<Rightarrow> ffprobe \<Rightarrow> path \<Rightarrow> int \<Rightarrow> path option \<Rightarrow> string \<Rightarrow> int \<Rightarrow> world
     \<Rightarrow> exn option \<times> world" where
  "video_compress_to_size fp run probe file target_size_mb output preset max_iterations w =
     (case video_to_size_body fp run probe file target_size_mb output preset max_iterations w of
        (Some e, w') \<Rightarrow> (None, echo (Error (Caught e)) w')
      | (None, w') \<Rightarrow> (None, w'))"

subsection \<open>The command line\<close>

text \<open>click runs a command's callback once its arguments are accepted
  (\<^verbatim>\<open>click.Path(exists=True)\<close>, \<^verbatim>\<open>click.IntRange\<close>): a rejected argument is a usage
  error with exit status 2; a callback that returns gives exit status 0, one that lets an
  exception escape gives 1.\<close>

definition click_exit_status :: "exn option \<Rightarrow> nat" where
  "click_exit_status escaped = (case escaped of None \<Rightarrow> 0 | Some e \<Rightarrow> 1)"

definition click_command :: "bool \<Rightarrow> (world \<Rightarrow> exn option \<times> world) \<Rightarrow> world \<Rightarrow> nat \<times> world" where
  "click_command accepted callback w =
     (if accepted then (case callback w of (escaped, w') \<Rightarrow> (click_exit_status escaped, w'))
      else (2, w))"

definition cli_image_by_percent ::
  "floats \<Rightarrow> pil \<Rightarrow> image option \<Rightarrow> path \<Rightarrow> int \<Rightarrow> path option \<Rightarrow> int \<Rightarrow> world
     \<Rightarrow> nat \<times> world" where
  "cli_image_by_percent fp enc opened file reduction output max_iterations w =
     click_command (path_exists w file \<and> 1 \<le> reduction \<and> reduction \<le> 99)
       (image_compress_by_percent fp enc opened file reduction output max_iterations) w"

definition cli_image_to_size ::
  "floats \<Rightarrow> pil \<Rightarrow> image option \<Rightarrow> path \<Rightarrow> int \<Rightarrow> path option \<Rightarrow> int \<Rightarrow> world
     \<Rightarrow> nat \<times> world" where
  "cli_image_to_size fp enc opened file target_size_kb output max_iterations w =
     click_command (path_exists w file \<and> 1 \<le> target_size_kb)
       (image_compress_to_size fp enc opened file target_size_kb output max_iterations) w"

definition presets :: "string list" where
  "presets = [''ultrafast'', ''superfast'', ''veryfast'', ''faster'', ''fast'', ''medium'',
              ''slow'', ''slower'', ''veryslow'']"

definition cli_video_by_percent ::
  "floats \<Rightarrow> ffmpeg \<Rightarrow> ffprobe \<Rightarrow> path \<Rightarrow> int \<Rightarrow> path option \<Rightarrow> string \<Rightarrow> int \<Rightarrow> world
     \<Rightarrow> nat \<times> world" where
  "cli_video_by_percent fp run probe file reduction output preset max_iterations w =
     click_command
       (path_exists w file \<and> 1 \<le> reduction \<and> reduction \<le> 99 \<and> List.member presets preset)
       (video_compress_by_percent fp run probe file reduction output preset max_iterations) w"

definition cli_video_to_size ::
  "floats \<Rightarrow> ffmpeg \<Rightarrow> ffprobe \<Rightarrow> path \<Rightarrow> int \<Rightarrow> path option \<Rightarrow> string \<Rightarrow> int \<Rightarrow> world
     \<Rightarrow> nat \<times> world" where
  "cli_video_to_size fp run probe file target_size_mb output preset max_iterations w =
     click_command (path_exists w file \<and> 1 \<le> target_size_mb \<and> List.member presets preset)
       (video_compress_to_size fp run probe file target_size_mb output preset max_iterations) w"


subsection \<open>Reading a trace\<close>

text \<open>The events that a run from \<open>w\<close> to \<open>w'\<close> added to the trace.\<close>

definition events_since :: "world \<Rightarrow> world \<Rightarrow> event list" where
  "events_since w w' = drop (length (trace w)) (trace w')"

text \<open>The bit rate argument of every call of \<open>compress_video_ffmpeg\<close>, in order, and the
  quality that every iteration of an image command reports, in order.\<close>

definition bitrates :: "event list \<Rightarrow> int list" where
  "bitrates tr = concat (map (\<lambda>e. case e of Ffmpeg i out b p r \<Rightarrow> [b] | _ \<Rightarrow> []) tr)"

definition qualities :: "event list \<Rightarrow> int list" where
  "qualities tr =
     concat (map (\<lambda>e. case e of Echo (IterationQuality k q n) \<Rightarrow> [q] | _ \<Rightarrow> []) tr)"

text \<open>The format handed to every call of \<^verbatim>\<open>Image.save\<close>, in order.\<close>

definition save_formats :: "event list \<Rightarrow> format list" where
  "save_formats tr = concat (map (\<lambda>e. case e of Save p f q r \<Rightarrow> [f] | _ \<Rightarrow> []) tr)"

definition is_encode_failure :: "event \<Rightarrow> bool" where
  "is_encode_failure e = (case e of Ffmpeg i out b p (EncodeFailed left) \<Rightarrow> True | _ \<Rightarrow> False)"

definition is_rename :: "event \<Rightarrow> bool" where
  "is_rename e = (case e of Rename src dst \<Rightarrow> True | _ \<Rightarrow> False)"

definition is_error :: "event \<Rightarrow> bool" where
  "is_error e = (case e of Echo (Error m) \<Rightarrow> True | _ \<Rightarrow> False)"

text \<open>The trace from the first failed ffmpeg call on.\<close>

definition from_failure :: "event list \<Rightarrow> event list" where
  "from_failure tr = dropWhile (\<lambda>e. \<not> is_encode_failure e) tr"

text \<open>Candidate files. An encoder call leaves a file at its output path when it succeeds,
  or when it fails half way; \<open>candidate_paths\<close> lists the output paths of all encoder
  calls. \<open>pending c tr\<close> is the candidate that is on storage after the events \<open>tr\<close>, when
  \<open>c\<close> was before them: a candidate is pending from the call that wrote it to the removal
  or the renaming of its path. \<open>one_at_a_time c tr\<close> says that no encoder is called in
  \<open>tr\<close> while a candidate is pending.\<close>

definition wrote :: "enc_result \<Rightarrow> bool" where
  "wrote r = (case r of Encoded n \<Rightarrow> True | EncodeFailed left \<Rightarrow> left \<noteq> None)"

definition candidate_paths :: "event list \<Rightarrow> path list" where
  "candidate_paths tr =
     concat (map (\<lambda>e. case e of Save p f q r \<Rightarrow> [p] | Ffmpeg i p b ps r \<Rightarrow> [p] | _ \<Rightarrow> []) tr)"

primrec pending :: "path option \<Rightarrow> event list \<Rightarrow> path option" where
  "pending c [] = c"
| "pending c (e # es) =
     (case e of
        Save p f q r \<Rightarrow> pending (if wrote r then Some p else c) es
      | Ffmpeg i p b ps r \<Rightarrow> pending (if wrote r then Some p else c) es
      | Remove p \<Rightarrow> pending (if c = Some p then None else c) es
      | Rename p d \<Rightarrow> pending (if c = Some p then None else c) es
      | Echo m \<Rightarrow> pending c es)"

primrec one_at_a_time :: "path option \<Rightarrow> event list \<Rightarrow> bool" where
  "one_at_a_time c [] = True"
| "one_at_a_time c (e # es) =
     (case e of
        Save p f q r \<Rightarrow> c = None \<and> one_at_a_time (if wrote r then Some p else c) es
      | Ffmpeg i p b ps r \<Rightarrow> c = None \<and> one_at_a_time (if wrote r then Some p else c) es
      | Remove p \<Rightarrow> one_at_a_time (if c = Some p then None else c) es
      | Rename p d \<Rightarrow> one_at_a_time (if c = Some p then None else c) es
      | Echo m \<Rightarrow> one_at_a_time c es)"

text \<open>The bit rate schedule in the words of the specification: every iteration asks for the
  current bit rate times the ratio of target to original size, truncated, and a failed
  iteration multiplies the current bit rate by the decay factor, truncated, for the next.\<close>

primrec bitrate_schedule :: "floats \<Rightarrow> rat \<Rightarrow> rat \<Rightarrow> int \<Rightarrow> nat \<Rightarrow> int list" where
  "bitrate_schedule fp ratio decay cb 0 = []"
| "bitrate_schedule fp ratio decay cb (Suc n) =
     py_int (fmul fp (of_int cb) ratio)
       # bitrate_schedule fp ratio decay (py_int (fmul fp (of_int cb) decay)) n"

text \<open>The quality schedule: a failed iteration lowers the quality by the step, but not below
  5; a PNG whose next quality is below the floor reports 95 instead, the quality reset by
  the downscale branch. \<open>quality_chain q qs\<close> says that the reported qualities \<open>qs\<close>
  start with \<open>q\<close> and follow the schedule.\<close>

definition next_quality :: "int \<Rightarrow> int \<Rightarrow> bool \<Rightarrow> int \<Rightarrow> int" where
  "next_quality qstep png_floor png q =
     (if png \<and> max 5 (q - qstep) < png_floor then 95 else max 5 (q - qstep))"

primrec quality_chain :: "int \<Rightarrow> int \<Rightarrow> bool \<Rightarrow> int \<Rightarrow> int list \<Rightarrow> bool" where
  "quality_chain qstep png_floor png q [] = True"
| "quality_chain qstep png_floor png q (x # xs) =
     (x = q \<and> quality_chain qstep png_floor png (next_quality qstep png_floor png x) xs)"

text \<open>The last lines that a command prints: the final size, and the reduction if the
  command reports it (lines 95-98 and 145-148).\<close>

definition final_report :: "floats \<Rightarrow> bool \<Rightarrow> nat \<Rightarrow> nat \<Rightarrow> event list" where
  "final_report fp report_reduction original_size final_size =
     Echo (FinalSize final_size)
       # (if report_reduction
          then (case actual_reduction fp original_size final_size of
                  Inl e \<Rightarrow> [] | Inr x \<Rightarrow> [Echo (ActualReduction x)])
          else [])"


section \<open>Sample inputs\<close>

text \<open>A 1000-byte JPEG photo, a PNG of the same size, and a video clip, each alone on the
  file system, with nothing printed yet.\<close>

definition photo_world :: world where
  "photo_world = \<lparr>fs = [''photo.jpg'' \<mapsto> Blob JPEG 1000], trace = []\<rparr>"

definition png_world :: world where
  "png_world = \<lparr>fs = [''photo.png'' \<mapsto> Blob PNG 1000], trace = []\<rparr>"

definition clip_world :: "nat \<Rightarrow> world" where
  "clip_world n = \<lparr>fs = [''clip.mp4'' \<mapsto> Blob Video n], trace = []\<rparr>"

definition square_image :: image where
  "square_image = \<lparr>width = 100, height = 100, rgb = False\<rparr>"

text \<open>Float operations without rounding error, which is what they are on the sample runs:
  there every operand and result is an integer, a half or a quarter, but for the products
  of 800000 and of 640000 by the float 0.8, which round to 640000 and to 512000. The square
  root is only asked at a quarter.\<close>

definition exact_floats :: floats where
  "exact_floats = \<lparr>rnd = (\<lambda>x. x), fsqrt = (\<lambda>x. if x = 1 / 4 then 1 / 2 else 1)\<rparr>"

text \<open>Encoders whose output has the same size whatever the parameters, an ffmpeg that
  always fails, and ffprobe answers with and without a bit rate.\<close>

definition pil_fixed :: "nat \<Rightarrow> pil" where
  "pil_fixed n = (\<lambda>p im f q. Encoded n)"

definition ffmpeg_fixed :: "nat \<Rightarrow> ffmpeg" where
  "ffmpeg_fixed n = (\<lambda>i out b p. Encoded n)"

definition ffmpeg_failing :: ffmpeg where
  "ffmpeg_failing = (\<lambda>i out b p. EncodeFailed None)"


definition probe_ok :: ffprobe where
  "probe_ok = (\<lambda>p. Some \<lparr>streams = [''audio'', ''video''], bit_rate = Present 800000,
                           duration = Present 10\<rparr>)"

definition probe_no_bitrate :: ffprobe where
  "probe_no_bitrate = (\<lambda>p. Some \<lparr>streams = [''video''], bit_rate = Absent,
                                   duration = Absent\<rparr>)"

definition probe_unavailable :: ffprobe where
  "probe_unavailable = (\<lambda>p. None)"

lemmas float_defs = exact_floats_def fmul_def fsub_def fdiv_def py_int_def actual_reduction_def

lemmas video_defs =
  video_compress_by_percent_def video_by_percent_body_def video_engine_def
  video_compress_to_size_def video_to_size_body_def
  get_video_info_def get_video_size_def getsize_def echo_def original_bitrate_of_def
  initial_vid_state_def vid_iteration_def compress_video_ffmpeg_def vid_commit_last_def
  os_rename_def os_remove_def out_path_def path_exists_def splitext_ext_def Let_def
  float_defs

lemmas image_defs =
  image_compress_by_percent_def image_by_percent_body_def
  image_compress_to_size_def image_to_size_body_def
  getsize_def echo_def initial_img_state_def img_iteration_def produce_candidate_def
  judge_candidate_def img_save_def os_remove_def os_rename_def out_path_def endswith_def
  lower_def lower_char_def img_commit_last_def path_exists_def splitext_ext_def Let_def
  float_defs


section \<open>The shape of a video run\<close>

text \<open>What one pass through the loop does, by what ffmpeg answers.\<close>

lemma vid_iteration_cases [consumes 2, case_names failed accepted rejected]:
  fixes inp :: path and fp :: floats and s :: vid_state and target_size :: rat
    and original_size :: nat and temp tb
  defines "temp \<equiv> inp @ ''.temp'' @ splitext_ext inp"
  defines "tb \<equiv> py_int (fmul fp (of_int (current_bitrate s))
                          (fdiv fp target_size (of_nat original_size)))"
  assumes it: "vid_iteration fp run inp output preset target_size original_size decay s w = (st, w')"
    and nz: "original_size \<noteq> 0"
  obtains
    (failed) left where
      "run inp temp (if tb \<noteq> 0 then Some tb else None) preset = EncodeFailed left"
      "st = Break (s\<lparr>temp_output := Some temp\<rparr>)"
      "trace w' = trace w @ [Echo (IterationBitrate (iterations_v s + 1) tb),
                             Ffmpeg inp temp tb preset (EncodeFailed left),
                             Echo (Error FFmpegFailed)]"
      "fs w' = (case left of None \<Rightarrow> fs w | Some n \<Rightarrow> (fs w)(temp \<mapsto> Blob Video n))"
  | (accepted) n where
      "run inp temp (if tb \<noteq> 0 then Some tb else None) preset = Encoded n"
      "of_nat n \<le> target_size"
      "st = Break (s\<lparr>temp_output := Some temp\<rparr>)"
      "trace w' = trace w @ [Echo (IterationBitrate (iterations_v s + 1) tb),
                             Ffmpeg inp temp tb preset (Encoded n),
                             Echo (Result n), Rename temp (out_path output inp)]"
      "fs w' = ((fs w)(temp := None))(out_path output inp \<mapsto> Blob Video n)"
  | (rejected) n where
      "run inp temp (if tb \<noteq> 0 then Some tb else None) preset = Encoded n"
      "\<not> of_nat n \<le> target_size"
      "st = Continue (s\<lparr>temp_output := Some temp,
                        current_bitrate := py_int (fmul fp (of_int (current_bitrate s)) decay),
                        iterations_v := iterations_v s + 1\<rparr>)"
      "trace w' = trace w @ [Echo (IterationBitrate (iterations_v s + 1) tb),
                             Ffmpeg inp temp tb preset (Encoded n),
                             Echo (Result n), Remove temp]"
      "fs w' = (fs w)(temp := None)"
proof (cases "run inp temp (if tb \<noteq> 0 then Some tb else None) preset")
  case (EncodeFailed left)
  from it nz EncodeFailed have
    "st = Break (s\<lparr>temp_output := Some temp\<rparr>)
     \<and> trace w' = trace w @ [Echo (IterationBitrate (iterations_v s + 1) tb),
                            Ffmpeg inp temp tb preset (EncodeFailed left),
                            Echo (Error FFmpegFailed)]
     \<and> fs w' = (case left of None \<Rightarrow> fs w | Some n \<Rightarrow> (fs w)(temp \<mapsto> Blob Video n))"
    unfolding temp_def tb_def
    by (auto simp: vid_iteration_def compress_video_ffmpeg_def echo_def Let_def
          split: option.splits)
  with EncodeFailed show ?thesis by (intro failed [of left]) simp_all
next
  case (Encoded n)
  show ?thesis
  proof (cases "of_nat n \<le> target_size")
    case True
    from it nz Encoded True have
      "st = Break (s\<lparr>temp_output := Some temp\<rparr>)
       \<and> trace w' = trace w @ [Echo (IterationBitrate (iterations_v s + 1) tb),
                              Ffmpeg inp temp tb preset (Encoded n),
                              Echo (Result n), Rename temp (out_path output inp)]
       \<and> fs w' = ((fs w)(temp := None))(out_path output inp \<mapsto> Blob Video n)"
      unfolding temp_def tb_def
      by (auto simp: vid_iteration_def compress_video_ffmpeg_def echo_def Let_def
            get_video_size_def getsize_def os_rename_def)
    with Encoded True show ?thesis by (intro accepted [of n]) simp_all
  next
    case False
    from it nz Encoded False have
      "st = Continue (s\<lparr>temp_output := Some temp,
                        current_bitrate := py_int (fmul fp (of_int (current_bitrate s)) decay),
                        iterations_v := iterations_v s + 1\<rparr>)
       \<and> trace w' = trace w @ [Echo (IterationBitrate (iterations_v s + 1) tb),
                              Ffmpeg inp temp tb preset (Encoded n),
                              Echo (Result n), Remove temp]
       \<and> fs w' = (fs w)(temp := None)"
      unfolding temp_def tb_def
      by (auto simp: vid_iteration_def compress_video_ffmpeg_def echo_def Let_def
            get_video_size_def getsize_def os_remove_def)
    with Encoded False show ?thesis by (intro rejected [of n]) simp_all
  qed
qed


lemma bitrates_simps [simp]:
  "bitrates [] = []"
  "bitrates (xs @ ys) = bitrates xs @ bitrates ys"
  "bitrates (Ffmpeg i out b p r # es) = b # bitrates es"
  "bitrates (Echo m # es) = bitrates es"
  "bitrates (Save t f q r # es) = bitrates es"
  "bitrates (Remove t # es) = bitrates es"
  "bitrates (Rename t d # es) = bitrates es"
  by (simp_all add: bitrates_def)

lemma bitrate_schedule_snoc:
  "\<exists>m. b # bitrate_schedule fp ratio decay cb' n = bitrate_schedule fp ratio decay cb m"
  if "b = py_int (fmul fp (of_int cb) ratio)" "cb' = py_int (fmul fp (of_int cb) decay)"
  using that by (intro exI [of _ "Suc n"]) simp

lemma length_bitrate_schedule [simp]: "length (bitrate_schedule fp ratio decay cb n) = n"
  by (induction n arbitrary: cb) simp_all

lemma vid_loop_bitrates:
  assumes nz: "original_size \<noteq> 0"
  shows "vid_loop fp run inp outp preset target_size original_size decay cap s w = (r, w')
    \<Longrightarrow> \<exists>tr n. trace w' = trace w @ tr
          \<and> bitrates tr = bitrate_schedule fp (fdiv fp target_size (of_nat original_size)) decay
                            (current_bitrate s) n"
  using nz
proof (induction fp run inp outp preset target_size original_size decay cap s w
       rule: vid_loop.induct)
  case (1 fp run inp outp preset target_size original_size decay cap s w)
  note nz = \<open>original_size \<noteq> 0\<close>
  note run = \<open>vid_loop fp run inp outp preset target_size original_size decay cap s w = (r, w')\<close>
  show ?case
  proof (cases "iterations_v s < cap")
    case False
    with run have "w' = w" by simp
    then show ?thesis by (intro exI [of _ "[]"] exI [of _ 0]) simp
  next
    case True
    obtain st w1 where it:
      "vid_iteration fp run inp outp preset target_size original_size decay s w = (st, w1)"
      by (cases "vid_iteration fp run inp outp preset target_size original_size decay s w")
    from it nz show ?thesis
    proof (cases rule: vid_iteration_cases)
      case (failed left)
      with run True it have "w' = w1" by simp
      with failed show ?thesis
        by (intro exI [of _ "drop (length (trace w)) (trace w1)"] exI [of _ 1])
           simp
    next
      case (accepted n)
      with run True it have "w' = w1" by simp
      with accepted show ?thesis
        by (intro exI [of _ "drop (length (trace w)) (trace w1)"] exI [of _ 1])
           simp
    next
      case (rejected n)
      let ?s1 = "s\<lparr>temp_output := Some (inp @ ''.temp'' @ splitext_ext inp),
                    current_bitrate := py_int (fmul fp (of_int (current_bitrate s)) decay),
                    iterations_v := iterations_v s + 1\<rparr>"
      from rejected it have it': "(Continue ?s1, w1) =
        vid_iteration fp run inp outp preset target_size original_size decay s w" by simp
      from run True it rejected have run':
        "vid_loop fp run inp outp preset target_size original_size decay cap ?s1 w1 = (r, w')"
        by simp
      from "1.IH" [OF True it' refl run' nz] obtain tr n where
        tr: "trace w' = trace w1 @ tr"
          "bitrates tr = bitrate_schedule fp (fdiv fp target_size (of_nat original_size)) decay
                           (current_bitrate ?s1) n"
        by blast
      with rejected show ?thesis
        by (intro exI [of _ "drop (length (trace w)) (trace w1) @ tr"] exI [of _ "Suc n"])
           simp
    qed
  qed
qed


inductive rejected_rounds :: "path \<Rightarrow> path \<Rightarrow> string \<Rightarrow> event list \<Rightarrow> bool"
  for inp temp preset where
    no_round: "rejected_rounds inp temp preset []"
  | one_round:
      "rejected_rounds inp temp preset es \<Longrightarrow>
       rejected_rounds inp temp preset
         (Echo (IterationBitrate k b) # Ffmpeg inp temp b preset (Encoded n)
            # Echo (Result n) # Remove temp # es)"

inductive vid_outcome ::
  "path \<Rightarrow> path \<Rightarrow> path \<Rightarrow> string \<Rightarrow> rat \<Rightarrow> int \<Rightarrow> (path \<rightharpoonup> blob) \<Rightarrow> bool
     \<Rightarrow> event list \<Rightarrow> vid_state \<Rightarrow> (path \<rightharpoonup> blob) \<Rightarrow> bool"
  for inp temp dest preset target_size cap f started where
    out_exhausted:
      "cap \<le> iterations_v s' \<Longrightarrow> f' = (if started then f(temp := None) else f)
       \<Longrightarrow> vid_outcome inp temp dest preset target_size cap f started [] s' f'"
  | out_accepted:
      "of_nat n \<le> target_size \<Longrightarrow> iterations_v s' < cap
       \<Longrightarrow> f' = (f(temp := None))(dest \<mapsto> Blob Video n)
       \<Longrightarrow> vid_outcome inp temp dest preset target_size cap f started
             [Echo (IterationBitrate k b), Ffmpeg inp temp b preset (Encoded n),
              Echo (Result n), Rename temp dest] s' f'"
  | out_failed:
      "iterations_v s' < cap
       \<Longrightarrow> f' = (case left of
                    None \<Rightarrow> (if started then f(temp := None) else f)
                  | Some n \<Rightarrow> f(temp \<mapsto> Blob Video n))
       \<Longrightarrow> vid_outcome inp temp dest preset target_size cap f started
             [Echo (IterationBitrate k b), Ffmpeg inp temp b preset (EncodeFailed left),
              Echo (Error FFmpegFailed)] s' f'"

lemma vid_outcome_started:
  "vid_outcome inp temp dest preset target_size cap (f(temp := None)) started fin s' f'
     \<Longrightarrow> vid_outcome inp temp dest preset target_size cap f True fin s' f'"
  by (erule vid_outcome.cases) (auto intro!: vid_outcome.intros split: option.splits)

lemma vid_loop_shape:
  fixes inp :: path
  defines "temp \<equiv> inp @ ''.temp'' @ splitext_ext inp"
  assumes run: "vid_loop fp run inp outp preset target_size original_size decay cap s w = (r, w')"
    and nz: "original_size \<noteq> 0"
  shows "\<exists>pre fin s'.
           r = Inr s' \<and> trace w' = trace w @ pre @ fin
           \<and> rejected_rounds inp temp preset pre
           \<and> (pre @ fin \<noteq> [] \<longrightarrow> temp_output s' = Some temp)
           \<and> (pre @ fin = [] \<longrightarrow> s' = s \<and> cap \<le> iterations_v s)
           \<and> vid_outcome inp temp (out_path outp inp) preset target_size cap (fs w) (pre \<noteq> [])
                fin s' (fs w')"
  using run nz unfolding temp_def
proof (induction fp run inp outp preset target_size original_size decay cap s w
       rule: vid_loop.induct)
  case (1 fp run inp outp preset target_size original_size decay cap s w)
  note nz = \<open>original_size \<noteq> 0\<close>
  note run = \<open>vid_loop fp run inp outp preset target_size original_size decay cap s w = (r, w')\<close>
  let ?temp = "inp @ ''.temp'' @ splitext_ext inp"
  let ?tb = "py_int (fmul fp (of_int (current_bitrate s))
                      (fdiv fp target_size (of_nat original_size)))"
  show ?case
  proof (cases "iterations_v s < cap")
    case False
    with run have "w' = w" "r = Inr s" by simp_all
    moreover from False have
      "vid_outcome inp ?temp (out_path outp inp) preset target_size cap (fs w) False [] s (fs w)"
      by (intro vid_outcome.out_exhausted) simp_all
    ultimately show ?thesis using False
      by (intro exI [of _ "[]"] exI [of _ "[]"] exI [of _ s])
         (simp add: rejected_rounds.no_round)
  next
    case True
    obtain st w1 where it:
      "vid_iteration fp run inp outp preset target_size original_size decay s w = (st, w1)"
      by (cases "vid_iteration fp run inp outp preset target_size original_size decay s w")
    from it nz show ?thesis
    proof (cases rule: vid_iteration_cases)
      case (failed left)
      from run True it failed have res: "w' = w1" "r = Inr (s\<lparr>temp_output := Some ?temp\<rparr>)"
        by simp_all
      let ?fin = "[Echo (IterationBitrate (iterations_v s + 1) ?tb),
                   Ffmpeg inp ?temp ?tb preset (EncodeFailed left), Echo (Error FFmpegFailed)]"
      have oc: "vid_outcome inp ?temp (out_path outp inp) preset target_size cap (fs w) False
                  ?fin (s\<lparr>temp_output := Some ?temp\<rparr>) (fs w1)"
        by (rule vid_outcome.out_failed) (use failed True in \<open>auto split: option.splits\<close>)
      from res oc failed(3) show ?thesis
        by (intro exI [of _ "[]"] exI [of _ ?fin] exI [of _ "s\<lparr>temp_output := Some ?temp\<rparr>"])
           (simp add: rejected_rounds.no_round)
    next
      case (accepted n)
      from run True it accepted have res: "w' = w1" "r = Inr (s\<lparr>temp_output := Some ?temp\<rparr>)"
        by simp_all
      let ?fin = "[Echo (IterationBitrate (iterations_v s + 1) ?tb),
                   Ffmpeg inp ?temp ?tb preset (Encoded n), Echo (Result n),
                   Rename ?temp (out_path outp inp)]"
      have oc: "vid_outcome inp ?temp (out_path outp inp) preset target_size cap (fs w) False
                  ?fin (s\<lparr>temp_output := Some ?temp\<rparr>) (fs w1)"
        by (rule vid_outcome.out_accepted) (use accepted True in auto)
      from res oc accepted(4) show ?thesis
        by (intro exI [of _ "[]"] exI [of _ ?fin] exI [of _ "s\<lparr>temp_output := Some ?temp\<rparr>"])
           (simp add: rejected_rounds.no_round)
    next
      case (rejected n)
      let ?s1 = "s\<lparr>temp_output := Some ?temp,
                    current_bitrate := py_int (fmul fp (of_int (current_bitrate s)) decay),
                    iterations_v := iterations_v s + 1\<rparr>"
      let ?round = "[Echo (IterationBitrate (iterations_v s + 1) ?tb),
                     Ffmpeg inp ?temp ?tb preset (Encoded n), Echo (Result n), Remove ?temp]"
      from rejected it have it': "(Continue ?s1, w1) =
        vid_iteration fp run inp outp preset target_size original_size decay s w" by simp
      from run True it rejected have run':
        "vid_loop fp run inp outp preset target_size original_size decay cap ?s1 w1 = (r, w')"
        by simp
      from "1.IH" [OF True it' refl run' nz] obtain pre fin s' where
        ih: "r = Inr s'" "trace w' = trace w1 @ pre @ fin"
          "rejected_rounds inp ?temp preset pre"
          "pre @ fin \<noteq> [] \<longrightarrow> temp_output s' = Some ?temp"
          "pre @ fin = [] \<longrightarrow> s' = ?s1 \<and> cap \<le> iterations_v ?s1"
          "vid_outcome inp ?temp (out_path outp inp) preset target_size cap (fs w1) (pre \<noteq> [])
             fin s' (fs w')"
        by blast
      have rr: "rejected_rounds inp ?temp preset (?round @ pre)"
        using ih(3) by (simp add: rejected_rounds.one_round)
      have tr: "trace w' = trace w @ (?round @ pre) @ fin" using rejected ih(2) by simp
      have to: "temp_output s' = Some ?temp" using ih(4,5) by (cases "pre @ fin = []") auto
      have oc: "vid_outcome inp ?temp (out_path outp inp) preset target_size cap (fs w) True
                  fin s' (fs w')"
        using ih(6) rejected(5) by (auto intro: vid_outcome_started)
      from ih(1) rr tr to oc show ?thesis
        by (intro exI [of _ "?round @ pre"] exI [of _ fin] exI [of _ s']) simp
    qed
  qed
qed


lemma video_engine_cases
  [consumes 2, case_names no_info no_stream bad_bitrate never_ran exhausted accepted failed]:
  fixes inp :: path and outp :: "path option"
  defines "temp \<equiv> inp @ ''.temp'' @ splitext_ext inp"
  defines "dest \<equiv> out_path outp inp"
  assumes eng: "video_engine fp run probe inp outp preset cap original_size target_size decay
                  rep w = (r, w')"
    and nz: "original_size \<noteq> 0"
  obtains
    (no_info) "probe inp = None" "r = None"
      "trace w' = trace w @ [Echo (Error CouldNotReadVideoInfo)]" "fs w' = fs w"
  | (no_stream) info where "probe inp = Some info" "''video'' \<notin> set (streams info)" "r = None"
      "trace w' = trace w @ [Echo (Error NoVideoStream)]" "fs w' = fs w"
  | (bad_bitrate) info e where "probe inp = Some info" "''video'' \<in> set (streams info)"
      "original_bitrate_of fp original_size info = Inl e" "r = Some e" "w' = w"
  | (never_ran) info cb where "probe inp = Some info" "''video'' \<in> set (streams info)"
      "original_bitrate_of fp original_size info = Inr cb" "cap \<le> 0"
      "r = Some UnboundLocalError" "trace w' = trace w @ [Echo Warning]" "fs w' = fs w"
  | (exhausted) info cb pre where "probe inp = Some info" "''video'' \<in> set (streams info)"
      "original_bitrate_of fp original_size info = Inr cb"
      "rejected_rounds inp temp preset pre" "pre \<noteq> []" "r = None"
      "trace w' = trace w @ pre @ [Echo Warning]
                   @ final_report fp rep original_size (get_video_size w' dest)"
      "fs w' = (fs w)(temp := None)"
      "bitrates pre = bitrate_schedule fp (fdiv fp target_size (of_nat original_size)) decay cb
                        (length (bitrates pre))"
  | (accepted) info cb pre k b n where "probe inp = Some info" "''video'' \<in> set (streams info)"
      "original_bitrate_of fp original_size info = Inr cb"
      "rejected_rounds inp temp preset pre" "of_nat n \<le> target_size" "r = None"
      "trace w' = trace w @ pre
                   @ [Echo (IterationBitrate k b), Ffmpeg inp temp b preset (Encoded n),
                      Echo (Result n), Rename temp dest]
                   @ final_report fp rep original_size (get_video_size w' dest)"
      "fs w' = ((fs w)(temp := None))(dest \<mapsto> Blob Video n)"
      "bitrates pre @ [b] = bitrate_schedule fp (fdiv fp target_size (of_nat original_size)) decay
                              cb (Suc (length (bitrates pre)))"
  | (failed) info cb pre k b left where "probe inp = Some info" "''video'' \<in> set (streams info)"
      "original_bitrate_of fp original_size info = Inr cb"
      "rejected_rounds inp temp preset pre" "r = None"
      "trace w' = trace w @ pre
                   @ [Echo (IterationBitrate k b), Ffmpeg inp temp b preset (EncodeFailed left),
                      Echo (Error FFmpegFailed)]
                   @ final_report fp rep original_size (get_video_size w' dest)"
      "fs w' = (case left of
                  None \<Rightarrow> (if pre = [] then fs w else (fs w)(temp := None))
                | Some n \<Rightarrow> (fs w)(temp \<mapsto> Blob Video n))"
      "bitrates pre @ [b] = bitrate_schedule fp (fdiv fp target_size (of_nat original_size)) decay
                              cb (Suc (length (bitrates pre)))"
proof (cases "probe inp")
  case None
  with eng show ?thesis
    by (intro no_info) (auto simp: video_engine_def get_video_info_def echo_def)
next
  case (Some info)
  show ?thesis
  proof (cases "''video'' \<in> set (streams info)")
    case False
    with eng Some show ?thesis
      by (intro no_stream [of info]) (auto simp: video_engine_def get_video_info_def echo_def)
  next
    case True
    show ?thesis
    proof (cases "original_bitrate_of fp original_size info")
      case (Inl e)
      with eng Some True show ?thesis
        by (intro bad_bitrate [of info e]) (auto simp: video_engine_def get_video_info_def)
    next
      case (Inr cb)
      obtain rl w1 where loop:
        "vid_loop fp run inp outp preset target_size original_size decay cap
           (initial_vid_state cb) w = (rl, w1)"
        by (cases "vid_loop fp run inp outp preset target_size original_size decay cap
                     (initial_vid_state cb) w")
      from vid_loop_shape [OF loop nz] obtain pre fin s' where
        sh: "rl = Inr s'" "trace w1 = trace w @ pre @ fin"
          "rejected_rounds inp temp preset pre"
          "pre @ fin \<noteq> [] \<longrightarrow> temp_output s' = Some temp"
          "pre @ fin = [] \<longrightarrow> s' = initial_vid_state cb \<and> cap \<le> iterations_v (initial_vid_state cb)"
          "vid_outcome inp temp dest preset target_size cap (fs w) (pre \<noteq> []) fin s' (fs w1)"
        unfolding temp_def dest_def by blast
      from vid_loop_bitrates [OF nz loop] sh(2) obtain n where
        "bitrates (pre @ fin) =
           bitrate_schedule fp (fdiv fp target_size (of_nat original_size)) decay cb n"
        by (auto simp: initial_vid_state_def)
      then have bs: "bitrates (pre @ fin) =
           bitrate_schedule fp (fdiv fp target_size (of_nat original_size)) decay cb
             (length (bitrates (pre @ fin)))"
        by (metis length_bitrate_schedule)
      from eng Some True Inr loop sh(1) have eng':
        "(case vid_commit_last inp outp cap s' w1 of
            (Some e, w2) \<Rightarrow> (Some e, w2)
          | (None, w2) \<Rightarrow>
              let final_size = get_video_size w2 (out_path outp inp)
              in if rep then
                   (case actual_reduction fp original_size final_size of
                      Inl e \<Rightarrow> (Some e, w2)
                    | Inr r \<Rightarrow>
                        (None, echo (ActualReduction r) (echo (FinalSize final_size) w2)))
                 else (None, echo (FinalSize final_size) w2)) = (r, w')"
        by (simp add: video_engine_def get_video_info_def)
      have rep: "r = None \<and> fs w' = fs w2
                 \<and> trace w' = trace w2 @ final_report fp rep original_size (get_video_size w' dest)"
        if "vid_commit_last inp outp cap s' w1 = (None, w2)" for w2
        using that eng' nz
        by (auto simp: final_report_def actual_reduction_def echo_def Let_def dest_def
              get_video_size_def getsize_def split: if_splits)
      from sh(6) show ?thesis
      proof (cases rule: vid_outcome.cases)
        case out_exhausted
        show ?thesis
        proof (cases "pre = []")
          case True
          with out_exhausted sh(5) have "s' = initial_vid_state cb" "cap \<le> 0"
            by (simp_all add: initial_vid_state_def)
          with eng' out_exhausted True sh(2) Some \<open>''video'' \<in> set (streams info)\<close> Inr
          show ?thesis
            by (intro never_ran [of info cb])
               (auto simp: vid_commit_last_def initial_vid_state_def echo_def Let_def)
        next
          case False
          with sh(4) have to: "temp_output s' = Some temp" by simp
          from out_exhausted False to have
            cl: "vid_commit_last inp outp cap s' w1 = (None, echo Warning w1)"
            by (simp add: vid_commit_last_def Let_def path_exists_def echo_def)
          from rep [OF cl] out_exhausted False sh(2,3) bs Some \<open>''video'' \<in> set (streams info)\<close> Inr
          show ?thesis
            by (intro exhausted [of info cb pre]) (simp_all add: echo_def)
        qed
      next
        case (out_accepted n k b)
        then have cl: "vid_commit_last inp outp cap s' w1 = (None, w1)"
          by (simp add: vid_commit_last_def)
        from rep [OF cl] out_accepted sh(2,3) bs Some \<open>''video'' \<in> set (streams info)\<close> Inr
        show ?thesis
          by (intro accepted [of info cb pre n k b]) simp_all
      next
        case (out_failed left k b)
        then have cl: "vid_commit_last inp outp cap s' w1 = (None, w1)"
          by (simp add: vid_commit_last_def)
        from rep [OF cl] out_failed sh(2,3) bs Some \<open>''video'' \<in> set (streams info)\<close> Inr
        show ?thesis
          by (intro failed [of info cb pre k b left]) simp_all
      qed
    qed
  qed
qed


text \<open>Reading the trace of a run of that shape.\<close>

lemma events_since_append: "trace w' = trace w @ tr \<Longrightarrow> events_since w w' = tr"
  by (simp add: events_since_def)

lemma observers_Nil [simp]:
  "qualities [] = []" "save_formats [] = []" "candidate_paths [] = []" "from_failure [] = []"
  by (simp_all add: qualities_def save_formats_def candidate_paths_def from_failure_def)

lemma observers_append [simp]:
  "qualities (xs @ ys) = qualities xs @ qualities ys"
  "save_formats (xs @ ys) = save_formats xs @ save_formats ys"
  "candidate_paths (xs @ ys) = candidate_paths xs @ candidate_paths ys"
  by (simp_all add: qualities_def save_formats_def candidate_paths_def)

lemma candidate_paths_Cons [simp]:
  "candidate_paths (Ffmpeg i p b ps r # es) = p # candidate_paths es"
  "candidate_paths (Save p f q r # es) = p # candidate_paths es"
  "candidate_paths (Echo m # es) = candidate_paths es"
  "candidate_paths (Remove p # es) = candidate_paths es"
  "candidate_paths (Rename p d # es) = candidate_paths es"
  by (simp_all add: candidate_paths_def)

lemma event_tests [simp]:
  "is_encode_failure (Ffmpeg i out b p r) = (\<exists>left. r = EncodeFailed left)"
  "\<not> is_encode_failure (Echo m)"
  "\<not> is_encode_failure (Save t f q r)"
  "\<not> is_encode_failure (Remove t)"
  "\<not> is_encode_failure (Rename t d)"
  "is_rename (Rename t d)"
  "\<not> is_rename (Echo m)"
  "\<not> is_rename (Save t f q r)"
  "\<not> is_rename (Remove t)"
  "\<not> is_rename (Ffmpeg i out b p r)"
  "is_error (Echo m) = (\<exists>x. m = Error x)"
  "\<not> is_error (Save t f q r)"
  "\<not> is_error (Remove t)"
  "\<not> is_error (Rename t d)"
  "\<not> is_error (Ffmpeg i out b p r)"
  by (auto simp: is_encode_failure_def is_rename_def is_error_def
        split: enc_result.splits message.splits)


lemma from_failure_Cons [simp]:
  "from_failure (e # es) = (if is_encode_failure e then e # es else from_failure es)"
  by (simp add: from_failure_def)

lemma pending_append: "pending c (xs @ ys) = pending (pending c xs) ys"
  by (induction xs arbitrary: c) (simp_all split: event.splits)

lemma one_at_a_time_append:
  "one_at_a_time c (xs @ ys) = (one_at_a_time c xs \<and> one_at_a_time (pending c xs) ys)"
  by (induction xs arbitrary: c) (auto split: event.splits)

lemma final_report_facts [simp]:
  "\<not> list_ex is_encode_failure (final_report fp rep o_size f_size)"
  "\<not> list_ex is_rename (final_report fp rep o_size f_size)"
  "bitrates (final_report fp rep o_size f_size) = []"
  "candidate_paths (final_report fp rep o_size f_size) = []"
  "pending c (final_report fp rep o_size f_size) = c"
  "one_at_a_time c (final_report fp rep o_size f_size)"
  "from_failure (final_report fp rep o_size f_size) = []"
  by (simp_all add: final_report_def split: sum.splits)

lemma final_report_no_error [simp]:
  "\<not> list_ex is_error (final_report fp rep o_size f_size)"
  by (simp add: final_report_def split: sum.splits)

lemma rejected_rounds_facts:
  assumes "rejected_rounds inp temp preset pre"
  shows "\<not> list_ex is_encode_failure pre" "\<not> list_ex is_rename pre" "\<not> list_ex is_error pre"
    "pending None pre = None" "one_at_a_time None pre" "set (candidate_paths pre) \<subseteq> {temp}"
    "pre \<noteq> [] \<Longrightarrow> set (candidate_paths pre) = {temp}"
  using assms by (induction rule: rejected_rounds.induct) (auto simp: wrote_def)


text \<open>The two video commands run the same engine, and a run of the engine has one of the
  shapes above.\<close>

lemma video_engine_appends:
  assumes "video_engine fp run probe inp outp preset cap original_size target_size decay
             rep w = (r, w')"
    and "original_size \<noteq> 0"
  shows "\<exists>tr. trace w' = trace w @ tr"
  using assms by (cases rule: video_engine_cases) auto

lemma video_by_percent_engine:
  fixes reduction :: int
  defines "target_of fp n \<equiv> fmul fp (of_nat n) (fsub fp 1 (fdiv fp (of_int reduction) 100))"
  assumes run: "video_compress_by_percent fp run probe inp reduction outp preset cap w = (r, w')"
    and nz: "get_video_size w inp \<noteq> 0"
  obtains r0 w0 tr0 where
    "video_engine fp run probe inp outp preset cap (get_video_size w inp)
       (target_of fp (get_video_size w inp)) (rnd fp (8 / 10)) True
       (echo (TargetSize (target_of fp (get_video_size w inp)))
          (echo (OriginalSize (get_video_size w inp)) w)) = (r0, w0)"
    "trace w0 = trace (echo (TargetSize (target_of fp (get_video_size w inp)))
                         (echo (OriginalSize (get_video_size w inp)) w)) @ tr0"
    "events_since w w' =
       Echo (OriginalSize (get_video_size w inp))
         # Echo (TargetSize (target_of fp (get_video_size w inp)))
         # tr0 @ (case r0 of None \<Rightarrow> [] | Some e \<Rightarrow> [Echo (Error (Caught e))])"
    "fs w' = fs w0" "r = None"
proof -
  let ?w1 = "echo (TargetSize (target_of fp (get_video_size w inp)))
               (echo (OriginalSize (get_video_size w inp)) w)"
  obtain r0 w0 where eng:
    "video_engine fp run probe inp outp preset cap (get_video_size w inp)
       (target_of fp (get_video_size w inp)) (rnd fp (8 / 10)) True ?w1 = (r0, w0)"
    by (cases "video_engine fp run probe inp outp preset cap (get_video_size w inp)
       (target_of fp (get_video_size w inp)) (rnd fp (8 / 10)) True ?w1")
  from video_engine_appends [OF eng nz] obtain tr0 where tr0: "trace w0 = trace ?w1 @ tr0" ..
  from run nz eng have res: "r = None"
    "w' = (case r0 of None \<Rightarrow> w0 | Some e \<Rightarrow> echo (Error (Caught e)) w0)"
    by (auto simp: video_compress_by_percent_def video_by_percent_body_def Let_def target_of_def
          split: option.splits)
  from res tr0 have "events_since w w' =
       Echo (OriginalSize (get_video_size w inp))
         # Echo (TargetSize (target_of fp (get_video_size w inp)))
         # tr0 @ (case r0 of None \<Rightarrow> [] | Some e \<Rightarrow> [Echo (Error (Caught e))])"
    "fs w' = fs w0"
    by (auto simp: events_since_def echo_def split: option.splits)
  with eng tr0 show ?thesis using res(1) by (rule that)
qed

lemma video_to_size_engine:
  assumes run: "video_compress_to_size fp run probe inp target_size_mb outp preset cap w = (r, w')"
    and nz: "get_video_size w inp \<noteq> 0"
    and big: "\<not> of_nat (get_video_size w inp) \<le> (of_int (target_size_mb * 1024 * 1024) :: rat)"
  obtains r0 w0 tr0 where
    "video_engine fp run probe inp outp preset cap (get_video_size w inp)
       (of_int (target_size_mb * 1024 * 1024)) (rnd fp (75 / 100)) False
       (echo (TargetSize (of_int (target_size_mb * 1024 * 1024)))
          (echo (OriginalSize (get_video_size w inp)) w)) = (r0, w0)"
    "trace w0 = trace (echo (TargetSize (of_int (target_size_mb * 1024 * 1024)))
                         (echo (OriginalSize (get_video_size w inp)) w)) @ tr0"
    "events_since w w' =
       Echo (OriginalSize (get_video_size w inp))
         # Echo (TargetSize (of_int (target_size_mb * 1024 * 1024)))
         # tr0 @ (case r0 of None \<Rightarrow> [] | Some e \<Rightarrow> [Echo (Error (Caught e))])"
    "fs w' = fs w0" "r = None"
proof -
  let ?w1 = "echo (TargetSize (of_int (target_size_mb * 1024 * 1024)))
               (echo (OriginalSize (get_video_size w inp)) w)"
  obtain r0 w0 where eng:
    "video_engine fp run probe inp outp preset cap (get_video_size w inp)
       (of_int (target_size_mb * 1024 * 1024)) (rnd fp (75 / 100)) False ?w1 = (r0, w0)"
    by (cases "video_engine fp run probe inp outp preset cap (get_video_size w inp)
       (of_int (target_size_mb * 1024 * 1024)) (rnd fp (75 / 100)) False ?w1")
  from video_engine_appends [OF eng nz] obtain tr0 where tr0: "trace w0 = trace ?w1 @ tr0" ..
  from run nz big eng have res: "r = None"
    "w' = (case r0 of None \<Rightarrow> w0 | Some e \<Rightarrow> echo (Error (Caught e)) w0)"
    by (auto simp: video_compress_to_size_def video_to_size_body_def Let_def
          split: option.splits)
  from res tr0 have "events_since w w' =
       Echo (OriginalSize (get_video_size w inp))
         # Echo (TargetSize (of_int (target_size_mb * 1024 * 1024)))
         # tr0 @ (case r0 of None \<Rightarrow> [] | Some e \<Rightarrow> [Echo (Error (Caught e))])"
    "fs w' = fs w0"
    by (auto simp: events_since_def echo_def split: option.splits)
  with eng tr0 show ?thesis using res(1) by (rule that)
qed

text \<open>The two ways in which the commands return before the engine.\<close>

lemma video_unreadable:
  assumes "get_video_size w inp = 0"
  shows "video_compress_by_percent fp run probe inp reduction outp preset cap w =
           (None, echo (Error CouldNotReadFileSize) w)"
    and "video_compress_to_size fp run probe inp target_size_mb outp preset cap w =
           (None, echo (Error CouldNotReadFileSize) w)"
  using assms
  by (simp_all add: video_compress_by_percent_def video_by_percent_body_def
        video_compress_to_size_def video_to_size_body_def)

lemma video_already_smaller:
  assumes "get_video_size w inp \<noteq> 0"
    and "of_nat (get_video_size w inp) \<le> (of_int (target_size_mb * 1024 * 1024) :: rat)"
  shows "video_compress_to_size fp run probe inp target_size_mb outp preset cap w =
           (None, echo AlreadySmaller w)"
  using assms by (simp add: video_compress_to_size_def video_to_size_body_def)

lemma events_since_echo [simp]: "events_since w (echo m w) = [Echo m]"
  by (simp add: events_since_def echo_def)

lemma rejected_rounds_bitrates:
  "rejected_rounds inp temp preset pre \<Longrightarrow> pre \<noteq> [] \<Longrightarrow> bitrates pre \<noteq> []"
  by (induction rule: rejected_rounds.induct) simp_all

lemma video_engine_bitrates:
  assumes eng: "video_engine fp run probe inp outp preset cap original_size target_size decay
                  rep w = (r, w')"
    and nz: "original_size \<noteq> 0"
    and tr: "trace w' = trace w @ tr"
    and info: "probe inp = Some info" "original_bitrate_of fp original_size info = Inr cb"
  shows "bitrates tr = bitrate_schedule fp (fdiv fp target_size (of_nat original_size)) decay cb
                         (length (bitrates tr))"
    and "0 < cap \<Longrightarrow> ''video'' \<in> set (streams info) \<Longrightarrow> bitrates tr \<noteq> []"
  using eng nz
  by (cases rule: video_engine_cases; use tr info in \<open>simp add: rejected_rounds_bitrates\<close>)+


lemma video_engine_clean:
  fixes inp :: path
  assumes eng: "video_engine fp run probe inp outp preset cap original_size target_size decay
                  rep w = (None, w')"
    and nz: "original_size \<noteq> 0"
    and tr: "trace w' = trace w @ tr"
    and ne: "\<not> list_ex is_error tr"
  shows "one_at_a_time None tr" and "pending None tr = None"
    and "\<forall>p\<in>set (candidate_paths tr). p \<noteq> out_path outp inp \<longrightarrow> fs w' p = None"
  using eng nz
  by (cases rule: video_engine_cases;
      use tr ne rejected_rounds_facts [of inp "inp @ ''.temp'' @ splitext_ext inp" preset] in
        \<open>auto simp: one_at_a_time_append pending_append wrote_def\<close>)+


text \<open>The bit rates of a run of either command.\<close>

lemma by_percent_bitrates:
  assumes run: "video_compress_by_percent fp run probe inp reduction outp preset cap w = (r, w')"
    and info: "probe inp = Some info"
      "original_bitrate_of fp (get_video_size w inp) info = Inr cb"
  shows "bitrates (events_since w w') =
           bitrate_schedule fp
             (fdiv fp (fmul fp (of_nat (get_video_size w inp))
                         (fsub fp 1 (fdiv fp (of_int reduction) 100)))
                (of_nat (get_video_size w inp)))
             (rnd fp (8 / 10)) cb (length (bitrates (events_since w w')))"
    and "get_video_size w inp \<noteq> 0 \<Longrightarrow> 0 < cap \<Longrightarrow> ''video'' \<in> set (streams info)
           \<Longrightarrow> bitrates (events_since w w') \<noteq> []"
proof -
  show "bitrates (events_since w w') =
           bitrate_schedule fp
             (fdiv fp (fmul fp (of_nat (get_video_size w inp))
                         (fsub fp 1 (fdiv fp (of_int reduction) 100)))
                (of_nat (get_video_size w inp)))
             (rnd fp (8 / 10)) cb (length (bitrates (events_since w w')))"
  proof (cases "get_video_size w inp = 0")
    case True
    from video_unreadable(1) [OF True, of fp run probe reduction outp preset cap] run
    show ?thesis by auto
  next
    case False
    from run False obtain r0 w0 tr0 where
      eng: "video_engine fp run probe inp outp preset cap (get_video_size w inp)
        (fmul fp (of_nat (get_video_size w inp)) (fsub fp 1 (fdiv fp (of_int reduction) 100)))
        (rnd fp (8 / 10)) True
        (echo (TargetSize (fmul fp (of_nat (get_video_size w inp))
                             (fsub fp 1 (fdiv fp (of_int reduction) 100))))
           (echo (OriginalSize (get_video_size w inp)) w)) = (r0, w0)"
      and tr0: "trace w0 =
        trace (echo (TargetSize (fmul fp (of_nat (get_video_size w inp))
                                   (fsub fp 1 (fdiv fp (of_int reduction) 100))))
                 (echo (OriginalSize (get_video_size w inp)) w)) @ tr0"
      and ev: "events_since w w' =
        Echo (OriginalSize (get_video_size w inp))
          # Echo (TargetSize (fmul fp (of_nat (get_video_size w inp))
                                (fsub fp 1 (fdiv fp (of_int reduction) 100))))
          # tr0 @ (case r0 of None \<Rightarrow> [] | Some e \<Rightarrow> [Echo (Error (Caught e))])"
      by (rule video_by_percent_engine)
    from video_engine_bitrates(1) [OF eng False tr0 info] ev show ?thesis
      by (simp split: option.splits)
  qed
next
  assume nz: "get_video_size w inp \<noteq> 0" and cap: "0 < cap"
    and v: "''video'' \<in> set (streams info)"
  from run nz obtain r0 w0 tr0 where
      eng: "video_engine fp run probe inp outp preset cap (get_video_size w inp)
        (fmul fp (of_nat (get_video_size w inp)) (fsub fp 1 (fdiv fp (of_int reduction) 100)))
        (rnd fp (8 / 10)) True
        (echo (TargetSize (fmul fp (of_nat (get_video_size w inp))
                             (fsub fp 1 (fdiv fp (of_int reduction) 100))))
           (echo (OriginalSize (get_video_size w inp)) w)) = (r0, w0)"
      and tr0: "trace w0 =
        trace (echo (TargetSize (fmul fp (of_nat (get_video_size w inp))
                                   (fsub fp 1 (fdiv fp (of_int reduction) 100))))
                 (echo (OriginalSize (get_video_size w inp)) w)) @ tr0"
      and ev: "events_since w w' =
        Echo (OriginalSize (get_video_size w inp))
          # Echo (TargetSize (fmul fp (of_nat (get_video_size w inp))
                                (fsub fp 1 (fdiv fp (of_int reduction) 100))))
          # tr0 @ (case r0 of None \<Rightarrow> [] | Some e \<Rightarrow> [Echo (Error (Caught e))])"
      by (rule video_by_percent_engine)
  from video_engine_bitrates(2) [OF eng nz tr0 info cap v] ev
  show "bitrates (events_since w w') \<noteq> []" by (simp split: option.splits)
qed

lemma to_size_bitrates:
  assumes run: "video_compress_to_size fp run probe inp target_size_mb outp preset cap w = (r, w')"
    and info: "probe inp = Some info"
      "original_bitrate_of fp (get_video_size w inp) info = Inr cb"
  shows "bitrates (events_since w w') =
           bitrate_schedule fp
             (fdiv fp (of_int (target_size_mb * 1024 * 1024)) (of_nat (get_video_size w inp)))
             (rnd fp (75 / 100)) cb (length (bitrates (events_since w w')))"
    and "get_video_size w inp \<noteq> 0
           \<Longrightarrow> \<not> of_nat (get_video_size w inp) \<le> (of_int (target_size_mb * 1024 * 1024) :: rat)
           \<Longrightarrow> 0 < cap \<Longrightarrow> ''video'' \<in> set (streams info)
           \<Longrightarrow> bitrates (events_since w w') \<noteq> []"
proof -
  show "bitrates (events_since w w') =
           bitrate_schedule fp
             (fdiv fp (of_int (target_size_mb * 1024 * 1024)) (of_nat (get_video_size w inp)))
             (rnd fp (75 / 100)) cb (length (bitrates (events_since w w')))"
  proof (cases "get_video_size w inp = 0")
    case True
    from video_unreadable(2) [OF True, of fp run probe target_size_mb outp preset cap] run
    show ?thesis by auto
  next
    case False
    show ?thesis
    proof (cases "of_nat (get_video_size w inp) \<le> (of_int (target_size_mb * 1024 * 1024) :: rat)")
      case True
      from video_already_smaller [OF False True, of fp run probe outp preset cap] run
      show ?thesis by auto
    next
      case big: False
      from run False big obtain r0 w0 tr0 where
        eng: "video_engine fp run probe inp outp preset cap
          (get_video_size w inp) (of_int (target_size_mb * 1024 * 1024)) (rnd fp (75 / 100))
          False
          (echo (TargetSize (of_int (target_size_mb * 1024 * 1024)))
             (echo (OriginalSize (get_video_size w inp)) w)) = (r0, w0)"
        and tr0: "trace w0 =
          trace (echo (TargetSize (of_int (target_size_mb * 1024 * 1024)))
                   (echo (OriginalSize (get_video_size w inp)) w)) @ tr0"
        and ev: "events_since w w' =
          Echo (OriginalSize (get_video_size w inp))
            # Echo (TargetSize (of_int (target_size_mb * 1024 * 1024)))
            # tr0 @ (case r0 of None \<Rightarrow> [] | Some e \<Rightarrow> [Echo (Error (Caught e))])"
        by (rule video_to_size_engine)
      from video_engine_bitrates(1) [OF eng False tr0 info] ev show ?thesis
        by (simp split: option.splits)
    qed
  qed
next
  assume nz: "get_video_size w inp \<noteq> 0"
    and big: "\<not> of_nat (get_video_size w inp) \<le> (of_int (target_size_mb * 1024 * 1024) :: rat)"
    and cap: "0 < cap" and v: "''video'' \<in> set (streams info)"
  from run nz big obtain r0 w0 tr0 where
        eng: "video_engine fp run probe inp outp preset cap
          (get_video_size w inp) (of_int (target_size_mb * 1024 * 1024)) (rnd fp (75 / 100))
          False
          (echo (TargetSize (of_int (target_size_mb * 1024 * 1024)))
             (echo (OriginalSize (get_video_size w inp)) w)) = (r0, w0)"
        and tr0: "trace w0 =
          trace (echo (TargetSize (of_int (target_size_mb * 1024 * 1024)))
                   (echo (OriginalSize (get_video_size w inp)) w)) @ tr0"
        and ev: "events_since w w' =
          Echo (OriginalSize (get_video_size w inp))
            # Echo (TargetSize (of_int (target_size_mb * 1024 * 1024)))
            # tr0 @ (case r0 of None \<Rightarrow> [] | Some e \<Rightarrow> [Echo (Error (Caught e))])"
        by (rule video_to_size_engine)
  from video_engine_bitrates(2) [OF eng nz tr0 info cap v] ev
  show "bitrates (events_since w w') \<noteq> []" by (simp split: option.splits)
qed


section \<open>Exit status\<close>

text \<open>
  C5 (as stated): the exit status is non-zero when the source cannot be measured or when
  the encoder fails, and zero otherwise. It fails on the code: by-percent on a video whose
  every ffmpeg call fails prints the error and still exits with status 0.
\<close>

theorem exit_status_zero_on_encode_failure:
  "cli_video_by_percent exact_floats ffmpeg_failing probe_ok ''clip.mp4'' 50 None ''medium'' 8
       (clip_world 1000) =
     (0, \<lparr>fs = [''clip.mp4'' \<mapsto> Blob Video 1000],
          trace = [Echo (OriginalSize 1000), Echo (TargetSize 500),
                   Echo (IterationBitrate 1 400000),
                   Ffmpeg ''clip.mp4'' ''clip.mp4.temp.mp4'' 400000 ''medium''
                     (EncodeFailed None),
                   Echo (Error FFmpegFailed), Echo (FinalSize 1000),
                   Echo (ActualReduction 0)]\<rparr>)"
  by (simp add: cli_video_by_percent_def click_command_def click_exit_status_def presets_def
      video_defs clip_world_def probe_ok_def ffmpeg_failing_def)

text \<open>
  C5 (amended): every compress command exits with status 0 whenever click accepts its
  arguments, whatever happens in the command (an unreadable size and a failed encoder are
  only reported as messages); the status is non-zero, 2, exactly when click rejects the
  arguments (the file does not exist, a number is out of range, an unknown preset).
\<close>

theorem exit_status_by_argument_check:
  "fst (cli_image_by_percent fp enc opened file reduction output max_iterations w) =
     (if path_exists w file \<and> 1 \<le> reduction \<and> reduction \<le> 99 then 0 else 2)
   \<and> fst (cli_image_to_size fp enc opened file target_size output max_iterations w) =
     (if path_exists w file \<and> 1 \<le> target_size then 0 else 2)
   \<and> fst (cli_video_by_percent fp run probe file reduction output preset max_iterations w) =
     (if path_exists w file \<and> 1 \<le> reduction \<and> reduction \<le> 99 \<and> List.member presets preset
      then 0 else 2)
   \<and> fst (cli_video_to_size fp run probe file target_size output preset max_iterations w) =
     (if path_exists w file \<and> 1 \<le> target_size \<and> List.member presets preset then 0 else 2)"
  by (simp add: cli_image_by_percent_def cli_image_to_size_def cli_video_by_percent_def
      cli_video_to_size_def click_command_def click_exit_status_def
      image_compress_by_percent_def image_compress_to_size_def video_compress_by_percent_def
      video_compress_to_size_def split: prod.splits option.splits)

section \<open>The no-op of to-size\<close>

text \<open>
  C8: every to-size request whose source is already no larger than the target returns at
  once with the informational message, encodes nothing and leaves the source as it is. The
  video command fails this on an empty file: \<open>get_video_size\<close> answers 0 both for a size
  it could not read and for a size of 0 bytes, and the command takes the 0 it read for the
  former: it reports that the size could not be read, where the image command on an empty
  file gives the informational message.
\<close>

theorem to_size_empty_video_is_an_error:
  "video_compress_to_size exact_floats (ffmpeg_fixed 900) probe_ok ''clip.mp4'' 50 None
       ''medium'' 10 (clip_world 0) =
     (None, \<lparr>fs = [''clip.mp4'' \<mapsto> Blob Video 0],
             trace = [Echo (Error CouldNotReadFileSize)]\<rparr>)
   \<and> image_compress_to_size exact_floats (pil_fixed 900) (Some square_image) ''photo.jpg'' 50
       None 15 \<lparr>fs = [''photo.jpg'' \<mapsto> Blob JPEG 0], trace = []\<rparr> =
     (None, \<lparr>fs = [''photo.jpg'' \<mapsto> Blob JPEG 0], trace = [Echo AlreadySmaller]\<rparr>)"
  by (simp add: video_defs image_defs clip_world_def)

text \<open>
  On every other input the code does what the sentence says: an image to-size request
  whose source size is at most the target, and a video to-size request whose source size is
  not 0 and at most the target, prints the informational message only, with no encoder call
  and no change to any file; a second to-size on the world the first one left is the same
  no-op.
\<close>

lemma to_size_no_op:
  "(fs w file = Some b \<and> int (nbytes b) \<le> target_size_kb * 1024 \<longrightarrow>
      image_compress_to_size fp enc opened file target_size_kb output max_iterations w =
        (None, echo AlreadySmaller w)
      \<and> image_compress_to_size fp enc opened file target_size_kb output max_iterations
           (echo AlreadySmaller w) = (None, echo AlreadySmaller (echo AlreadySmaller w)))
   \<and> (fs w file = Some b \<and> nbytes b \<noteq> 0 \<and> int (nbytes b) \<le> target_size_mb * 1024 * 1024 \<longrightarrow>
      video_compress_to_size fp run probe file target_size_mb output preset max_iterations w =
        (None, echo AlreadySmaller w)
      \<and> video_compress_to_size fp run probe file target_size_mb output preset max_iterations
           (echo AlreadySmaller w) = (None, echo AlreadySmaller (echo AlreadySmaller w)))
   \<and> fs (echo AlreadySmaller w) = fs w
   \<and> trace (echo AlreadySmaller w) = trace w @ [Echo AlreadySmaller]"
proof -
  have le_kb: "rat_of_nat n \<le> rat_of_int k \<longleftrightarrow> int n \<le> k" for n k
    by (metis of_int_le_iff of_int_of_nat_eq)
  show ?thesis
    by (simp add: image_compress_to_size_def image_to_size_body_def
        video_compress_to_size_def video_to_size_body_def get_video_size_def getsize_def
        echo_def le_kb Let_def)
qed


section \<open>Cap exhaustion\<close>

text \<open>
  C1: when the loop exhausts the iteration cap without a candidate that meets the target,
  the last candidate is kept and renamed to the destination, with a warning. The code
  removes every rejected candidate inside the loop, the last one included, so that the
  rename after the loop finds nothing: with a cap of 3 and an encoder that always yields
  900 bytes for a target of 500, the warning is printed, nothing is renamed, and the
  destination still holds the 1000 bytes of the source. Image and video alike.
\<close>

theorem cap_exhaustion_commits_nothing:
  "image_compress_by_percent exact_floats (pil_fixed 900) (Some square_image) ''photo.jpg'' 50 None 3
       photo_world =
     (None, \<lparr>fs = [''photo.jpg'' \<mapsto> Blob JPEG 1000],
             trace = [Echo (OriginalSize 1000), Echo (TargetSize 500),
                      Save ''photo.jpg.temp'' JPEG 95 (Encoded 900),
                      Echo (IterationQuality 1 95 900), Remove ''photo.jpg.temp'',
                      Save ''photo.jpg.temp'' JPEG 85 (Encoded 900),
                      Echo (IterationQuality 2 85 900), Remove ''photo.jpg.temp'',
                      Save ''photo.jpg.temp'' JPEG 75 (Encoded 900),
                      Echo (IterationQuality 3 75 900), Remove ''photo.jpg.temp'',
                      Echo Warning, Echo (FinalSize 1000), Echo (ActualReduction 0)]\<rparr>)
   \<and> video_compress_by_percent exact_floats (ffmpeg_fixed 900) probe_ok ''clip.mp4'' 50 None ''medium'' 3
       (clip_world 1000) =
     (None, \<lparr>fs = [''clip.mp4'' \<mapsto> Blob Video 1000],
             trace = [Echo (OriginalSize 1000), Echo (TargetSize 500),
                      Echo (IterationBitrate 1 400000),
                      Ffmpeg ''clip.mp4'' ''clip.mp4.temp.mp4'' 400000 ''medium'' (Encoded 900),
                      Echo (Result 900), Remove ''clip.mp4.temp.mp4'',
                      Echo (IterationBitrate 2 320000),
                      Ffmpeg ''clip.mp4'' ''clip.mp4.temp.mp4'' 320000 ''medium'' (Encoded 900),
                      Echo (Result 900), Remove ''clip.mp4.temp.mp4'',
                      Echo (IterationBitrate 3 256000),
                      Ffmpeg ''clip.mp4'' ''clip.mp4.temp.mp4'' 256000 ''medium'' (Encoded 900),
                      Echo (Result 900), Remove ''clip.mp4.temp.mp4'',
                      Echo Warning, Echo (FinalSize 1000), Echo (ActualReduction 0)]\<rparr>)"
  by (simp add: image_defs video_defs photo_world_def clip_world_def pil_fixed_def
      ffmpeg_fixed_def probe_ok_def square_image_def)

section \<open>The downscale fallback for PNG\<close>

text \<open>
  C2: once the quality of a PNG request is below the floor, the next iteration shrinks the
  image, resets the quality to 95 and goes on, producing and measuring a new candidate. The
  code does shrink and reset, but that branch saves nothing: the size is then read from
  \<^verbatim>\<open>photo.png.temp\<close>, a path that was never written, and the command ends with the
  caught error in its sixth iteration.
\<close>

theorem png_downscale_produces_no_candidate:
  "image_compress_by_percent exact_floats (pil_fixed 2000) (Some square_image) ''photo.png'' 50 None 10
       png_world =
     (None, \<lparr>fs = [''photo.png'' \<mapsto> Blob PNG 1000],
             trace = [Echo (OriginalSize 1000), Echo (TargetSize 500),
                      Save ''photo.jpg.temp'' JPEG 95 (Encoded 2000),
                      Echo (IterationQuality 1 95 2000), Remove ''photo.jpg.temp'',
                      Save ''photo.jpg.temp'' JPEG 85 (Encoded 2000),
                      Echo (IterationQuality 2 85 2000), Remove ''photo.jpg.temp'',
                      Save ''photo.jpg.temp'' JPEG 75 (Encoded 2000),
                      Echo (IterationQuality 3 75 2000), Remove ''photo.jpg.temp'',
                      Save ''photo.jpg.temp'' JPEG 65 (Encoded 2000),
                      Echo (IterationQuality 4 65 2000), Remove ''photo.jpg.temp'',
                      Save ''photo.jpg.temp'' JPEG 55 (Encoded 2000),
                      Echo (IterationQuality 5 55 2000), Remove ''photo.jpg.temp'',
                      Echo (Error (Caught FileNotFoundError))]\<rparr>)"
  by (simp add: image_defs png_downscale_def png_world_def pil_fixed_def square_image_def)

section \<open>A failing encoder\<close>







section \<open>The bit rate estimate\<close>

text \<open>
  C6 (as stated): when ffprobe is unavailable or its answer holds no bit rate, the original
  bit rate is estimated from size and duration and the compression loop runs on that
  estimate. The first half fails on the code: without an answer from ffprobe the command
  prints that it could not read the video information and returns, and ffmpeg is never
  called.
\<close>

theorem unavailable_probe_stops:
  "video_compress_by_percent exact_floats (ffmpeg_fixed 900) probe_unavailable ''clip.mp4'' 50
       None ''medium'' 8 (clip_world 1000) =
     (None, \<lparr>fs = [''clip.mp4'' \<mapsto> Blob Video 1000],
             trace = [Echo (OriginalSize 1000), Echo (TargetSize 500),
                      Echo (Error CouldNotReadVideoInfo)]\<rparr>)"
  by (simp add: video_defs clip_world_def probe_unavailable_def)

lemma estimated_bitrate:
  assumes "bit_rate info = Absent \<or> bit_rate info = Present 0"
    and "duration info = Absent \<and> d = 1 \<or> duration info = Present d \<and> d \<noteq> 0"
  shows "original_bitrate_of fp original_size info =
           Inr (py_int (fdiv fp (of_nat (original_size * 8)) d))"
  using assms by (auto simp: original_bitrate_of_def)

text \<open>
  C6 (amended): when ffprobe gives no answer, either command reports that it could not read
  the video information and stops without calling ffmpeg. When ffprobe answers with a video
  stream and the bit rate is absent or 0, the original bit rate is estimated as the size in
  bits divided by the duration, truncated, with 1 for an absent duration, and the loop runs
  on that estimate: ffmpeg is called, and the bit rates of the calls are the schedule that
  starts from the estimate.
\<close>

theorem bitrate_estimate:
  "(probe file = None \<and> get_video_size w file \<noteq> 0
    \<longrightarrow> video_compress_by_percent fp run probe file reduction output preset max_iterations w =
          (None, echo (Error CouldNotReadVideoInfo)
                   (echo (TargetSize (fmul fp (of_nat (get_video_size w file))
                                        (fsub fp 1 (fdiv fp (of_int reduction) 100))))
                      (echo (OriginalSize (get_video_size w file)) w))))
   \<and> (probe file = None \<and> get_video_size w file \<noteq> 0
        \<and> \<not> of_nat (get_video_size w file) \<le> (of_int (target_size_mb * 1024 * 1024) :: rat)
    \<longrightarrow> video_compress_to_size fp run probe file target_size_mb output preset max_iterations w =
          (None, echo (Error CouldNotReadVideoInfo)
                   (echo (TargetSize (of_int (target_size_mb * 1024 * 1024)))
                      (echo (OriginalSize (get_video_size w file)) w))))
   \<and> (probe file = Some info \<and> ''video'' \<in> set (streams info)
        \<and> (bit_rate info = Absent \<or> bit_rate info = Present 0)
        \<and> (duration info = Absent \<and> d = 1 \<or> duration info = Present d \<and> d \<noteq> 0)
        \<and> get_video_size w file \<noteq> 0 \<and> 0 < max_iterations
        \<and> video_compress_by_percent fp run probe file reduction output preset max_iterations w
            = (r, w')
    \<longrightarrow> original_bitrate_of fp (get_video_size w file) info =
          Inr (py_int (fdiv fp (of_nat (get_video_size w file * 8)) d))
        \<and> bitrates (events_since w w') \<noteq> []
        \<and> bitrates (events_since w w') =
            bitrate_schedule fp
              (fdiv fp (fmul fp (of_nat (get_video_size w file))
                          (fsub fp 1 (fdiv fp (of_int reduction) 100)))
                 (of_nat (get_video_size w file)))
              (rnd fp (8 / 10)) (py_int (fdiv fp (of_nat (get_video_size w file * 8)) d))
              (length (bitrates (events_since w w'))))
   \<and> (probe file = Some info \<and> ''video'' \<in> set (streams info)
        \<and> (bit_rate info = Absent \<or> bit_rate info = Present 0)
        \<and> (duration info = Absent \<and> d = 1 \<or> duration info = Present d \<and> d \<noteq> 0)
        \<and> get_video_size w file \<noteq> 0 \<and> 0 < max_iterations
        \<and> \<not> of_nat (get_video_size w file) \<le> (of_int (target_size_mb * 1024 * 1024) :: rat)
        \<and> video_compress_to_size fp run probe file target_size_mb output preset max_iterations w
            = (r, w')
    \<longrightarrow> original_bitrate_of fp (get_video_size w file) info =
          Inr (py_int (fdiv fp (of_nat (get_video_size w file * 8)) d))
        \<and> bitrates (events_since w w') \<noteq> []
        \<and> bitrates (events_since w w') =
            bitrate_schedule fp
              (fdiv fp (of_int (target_size_mb * 1024 * 1024)) (of_nat (get_video_size w file)))
              (rnd fp (75 / 100)) (py_int (fdiv fp (of_nat (get_video_size w file * 8)) d))
              (length (bitrates (events_since w w'))))"
proof (intro conjI)
  show "probe file = None \<and> get_video_size w file \<noteq> 0
    \<longrightarrow> video_compress_by_percent fp run probe file reduction output preset max_iterations w =
          (None, echo (Error CouldNotReadVideoInfo)
                   (echo (TargetSize (fmul fp (of_nat (get_video_size w file))
                                        (fsub fp 1 (fdiv fp (of_int reduction) 100))))
                      (echo (OriginalSize (get_video_size w file)) w)))"
    by (simp add: video_compress_by_percent_def video_by_percent_body_def video_engine_def
          get_video_info_def Let_def)
next
  show "probe file = None \<and> get_video_size w file \<noteq> 0
        \<and> \<not> of_nat (get_video_size w file) \<le> (of_int (target_size_mb * 1024 * 1024) :: rat)
    \<longrightarrow> video_compress_to_size fp run probe file target_size_mb output preset max_iterations w =
          (None, echo (Error CouldNotReadVideoInfo)
                   (echo (TargetSize (of_int (target_size_mb * 1024 * 1024)))
                      (echo (OriginalSize (get_video_size w file)) w)))"
    by (simp add: video_compress_to_size_def video_to_size_body_def video_engine_def
          get_video_info_def Let_def)
next
  show "probe file = Some info \<and> ''video'' \<in> set (streams info)
        \<and> (bit_rate info = Absent \<or> bit_rate info = Present 0)
        \<and> (duration info = Absent \<and> d = 1 \<or> duration info = Present d \<and> d \<noteq> 0)
        \<and> get_video_size w file \<noteq> 0 \<and> 0 < max_iterations
        \<and> video_compress_by_percent fp run probe file reduction output preset max_iterations w
            = (r, w')
    \<longrightarrow> original_bitrate_of fp (get_video_size w file) info =
          Inr (py_int (fdiv fp (of_nat (get_video_size w file * 8)) d))
        \<and> bitrates (events_since w w') \<noteq> []
        \<and> bitrates (events_since w w') =
            bitrate_schedule fp
              (fdiv fp (fmul fp (of_nat (get_video_size w file))
                          (fsub fp 1 (fdiv fp (of_int reduction) 100)))
                 (of_nat (get_video_size w file)))
              (rnd fp (8 / 10)) (py_int (fdiv fp (of_nat (get_video_size w file * 8)) d))
              (length (bitrates (events_since w w')))" (is "_ \<longrightarrow> ?C")
  proof (rule impI; elim conjE)
    assume a: "probe file = Some info" "''video'' \<in> set (streams info)"
      "bit_rate info = Absent \<or> bit_rate info = Present 0"
      "duration info = Absent \<and> d = 1 \<or> duration info = Present d \<and> d \<noteq> 0"
      "get_video_size w file \<noteq> 0" "0 < max_iterations"
      "video_compress_by_percent fp run probe file reduction output preset max_iterations w
         = (r, w')"
    note est = estimated_bitrate [OF a(3,4), of fp "get_video_size w file"]
    from est by_percent_bitrates(1) [OF a(7) a(1) est]
      by_percent_bitrates(2) [OF a(7) a(1) est a(5) a(6) a(2)]
    show ?C by simp
  qed
next
  show "probe file = Some info \<and> ''video'' \<in> set (streams info)
        \<and> (bit_rate info = Absent \<or> bit_rate info = Present 0)
        \<and> (duration info = Absent \<and> d = 1 \<or> duration info = Present d \<and> d \<noteq> 0)
        \<and> get_video_size w file \<noteq> 0 \<and> 0 < max_iterations
        \<and> \<not> of_nat (get_video_size w file) \<le> (of_int (target_size_mb * 1024 * 1024) :: rat)
        \<and> video_compress_to_size fp run probe file target_size_mb output preset max_iterations w
            = (r, w')
    \<longrightarrow> original_bitrate_of fp (get_video_size w file) info =
          Inr (py_int (fdiv fp (of_nat (get_video_size w file * 8)) d))
        \<and> bitrates (events_since w w') \<noteq> []
        \<and> bitrates (events_since w w') =
            bitrate_schedule fp
              (fdiv fp (of_int (target_size_mb * 1024 * 1024)) (of_nat (get_video_size w file)))
              (rnd fp (75 / 100)) (py_int (fdiv fp (of_nat (get_video_size w file * 8)) d))
              (length (bitrates (events_since w w')))" (is "_ \<longrightarrow> ?C")
  proof (rule impI; elim conjE)
    assume a: "probe file = Some info" "''video'' \<in> set (streams info)"
      "bit_rate info = Absent \<or> bit_rate info = Present 0"
      "duration info = Absent \<and> d = 1 \<or> duration info = Present d \<and> d \<noteq> 0"
      "get_video_size w file \<noteq> 0" "0 < max_iterations"
      "\<not> of_nat (get_video_size w file) \<le> (of_int (target_size_mb * 1024 * 1024) :: rat)"
      "video_compress_to_size fp run probe file target_size_mb output preset max_iterations w
         = (r, w')"
    note est = estimated_bitrate [OF a(3,4), of fp "get_video_size w file"]
    from est to_size_bitrates(1) [OF a(8) a(1) est]
      to_size_bitrates(2) [OF a(8) a(1) est a(5) a(7) a(6) a(2)]
    show ?C by simp
  qed
qed

theorem bitrate_estimate_witness:
  "video_compress_by_percent exact_floats (ffmpeg_fixed 900) probe_unavailable ''clip.mp4'' 50
       None ''medium'' 8 (clip_world 1000) =
     (None, echo (Error CouldNotReadVideoInfo)
              (echo (TargetSize 500) (echo (OriginalSize 1000) (clip_world 1000))))
   \<and> original_bitrate_of exact_floats 1000
        \<lparr>streams = [''video''], bit_rate = Absent, duration = Absent\<rparr> = Inr 8000
   \<and> bitrates (events_since (clip_world 1000)
        (snd (video_compress_by_percent exact_floats (ffmpeg_fixed 900) probe_no_bitrate
                ''clip.mp4'' 50 None ''medium'' 2 (clip_world 1000)))) = [4000, 3200]"
  using bitrate_estimate [of probe_unavailable "''clip.mp4''" "clip_world 1000" exact_floats
          "ffmpeg_fixed 900" 50 None "''medium''" 8 1
          "\<lparr>streams = [''video''], bit_rate = Absent, duration = Absent\<rparr>" 1 None
          "clip_world 1000"]
        bitrate_estimate [of probe_no_bitrate "''clip.mp4''" "clip_world 1000" exact_floats
          "ffmpeg_fixed 900" 50 None "''medium''" 2 1
          "\<lparr>streams = [''video''], bit_rate = Absent, duration = Absent\<rparr>" 1
          "fst (video_compress_by_percent exact_floats (ffmpeg_fixed 900) probe_no_bitrate
                  ''clip.mp4'' 50 None ''medium'' 2 (clip_world 1000))"
          "snd (video_compress_by_percent exact_floats (ffmpeg_fixed 900) probe_no_bitrate
                  ''clip.mp4'' 50 None ''medium'' 2 (clip_world 1000))"]
  by (simp add: video_defs clip_world_def ffmpeg_fixed_def probe_no_bitrate_def
        probe_unavailable_def events_since_def)


section \<open>The bit rate schedule\<close>




end
